theory Spec2Isabelle
  imports Main "HOL-Library.Sublist" "HOL-Library.Word"
begin

section \<open>Strings as the browser treats them\<close>

text \<open>
  A JavaScript string is a sequence of UTF-16 code units. The texts that the blogs page
  searches (the title and the snippet of a blog, the search term) are modelled so; the
  other strings, which the code only stores, compares for equality or shows, are
  \<open>string\<close>. \<open>js\<close> reads a \<open>string\<close> literal as code units below 256.
\<close>

type_synonym utf16 = "16 word list"

definition js :: "string \<Rightarrow> utf16" where
  "js s = map (\<lambda>c. of_nat (of_char c)) s"

text \<open>
  The code points of a string: a high surrogate followed by a low surrogate is one code
  point above U+FFFF, every other code unit is a code point by itself. \<open>codeUnits\<close> is
  the way back.
\<close>

fun codePoints :: "utf16 \<Rightarrow> nat list" where
  "codePoints [] = []"
| "codePoints [c] = [unat c]"
| "codePoints (c # d # rest) =
     (if 0xD800 \<le> c \<and> c \<le> 0xDBFF \<and> 0xDC00 \<le> d \<and> d \<le> 0xDFFF
      then (0x10000 + (unat c - 0xD800) * 0x400 + (unat d - 0xDC00)) # codePoints rest
      else unat c # codePoints (d # rest))"

fun codeUnits :: "nat list \<Rightarrow> utf16" where
  "codeUnits [] = []"
| "codeUnits (p # ps) =
     (if p < 0x10000 then [of_nat p]
      else [of_nat (0xD800 + (p - 0x10000) div 0x400), of_nat (0xDC00 + (p - 0x10000) mod 0x400)])
     @ codeUnits ps"

text \<open>
  \<open>String.prototype.toLowerCase\<close> lower-cases the code points by the Unicode default case
  conversion. Below 256 the conversion maps A-Z (65-90) and the Latin-1 capitals 192-222
  other than the multiplication sign 215 to the code point 32 above, and leaves every
  other code point alone. The capital sigma U+03A3 becomes the final sigma U+03C2 when a
  cased letter, then any number of case-ignorable code points, come before it, and no
  such sequence in the other order comes after it; otherwise it becomes U+03C3. For the
  other code points the conversion is a table of the Unicode Character Database, as are
  the properties Cased and Case_Ignorable. The tables belong to the JavaScript engine,
  not to this repository, and are a parameter.
\<close>

record unicode_tables =
  toLowercase_above :: "nat \<Rightarrow> nat list"
  Cased :: "nat \<Rightarrow> bool"
  Case_Ignorable :: "nat \<Rightarrow> bool"

fun reaches_cased :: "unicode_tables \<Rightarrow> nat list \<Rightarrow> bool" where
  "reaches_cased U [] = False"
| "reaches_cased U (p # ps) = (Cased U p \<or> (Case_Ignorable U p \<and> reaches_cased U ps))"

text \<open>\<open>before\<close> holds the code points before \<open>p\<close>, the nearest first.\<close>

definition lower_point :: "unicode_tables \<Rightarrow> nat list \<Rightarrow> nat \<Rightarrow> nat list \<Rightarrow> nat list" where
  "lower_point U before p after =
     (if p < 256 then
        [if (65 \<le> p \<and> p \<le> 90) \<or> (192 \<le> p \<and> p \<le> 222 \<and> p \<noteq> 215) then p + 32 else p]
      else if p = 0x3A3 then
        (if reaches_cased U before \<and> \<not> reaches_cased U after then [0x3C2] else [0x3C3])
      else toLowercase_above U p)"

fun lower_points :: "unicode_tables \<Rightarrow> nat list \<Rightarrow> nat list \<Rightarrow> nat list" where
  "lower_points U before [] = []"
| "lower_points U before (p # after) =
     lower_point U before p after @ lower_points U (p # before) after"

definition toLowerCase :: "unicode_tables \<Rightarrow> utf16 \<Rightarrow> utf16" where
  "toLowerCase U s = codeUnits (lower_points U [] (codePoints s))"

text \<open>\<open>haystack.includes(needle)\<close>: the needle occurs in the haystack as a contiguous part.\<close>

fun str_includes :: "'a list \<Rightarrow> 'a list \<Rightarrow> bool" where
  "str_includes [] needle = (needle = [])"
| "str_includes (c # cs) needle = (prefix needle (c # cs) \<or> str_includes cs needle)"

text \<open>
  \<open>String.prototype.trim\<close> strips white space and line terminators from both ends; below
  256 these are the code units 9-13, 32 and 160. It is applied to the tags typed into the
  blog form, which are kept as \<open>string\<close>.
\<close>

definition isWhiteSpace :: "char \<Rightarrow> bool" where
  "isWhiteSpace c = (let n = (of_char c :: nat) in (9 \<le> n \<and> n \<le> 13) \<or> n = 32 \<or> n = 160)"

definition trim :: "string \<Rightarrow> string" where
  "trim s = rev (dropWhile isWhiteSpace (rev (dropWhile isWhiteSpace s)))"

text \<open>\<open>s.split(sep)\<close> for a separator of one code unit; \<open>''.split(',')\<close> is \<open>['']\<close>.\<close>

fun split_on :: "char \<Rightarrow> string \<Rightarrow> string list" where
  "split_on sep [] = [[]]"
| "split_on sep (c # cs) =
     (if c = sep then [] # split_on sep cs
      else (case split_on sep cs of [] \<Rightarrow> [[c]] | p # ps \<Rightarrow> (c # p) # ps))"

section \<open>Data model (src/unnamed/part_002, the Supabase client module)\<close>

text \<open>
  The interfaces \<open>Blog\<close> and \<open>Course\<close> of the client module. Field names carry the
  interface name as a prefix, since \<open>id\<close>, \<open>title\<close>, \<open>content\<close> ... occur in both.
  The title and the snippet of a blog are \<open>utf16\<close>, the other strings \<open>string\<close>;
  \<open>video_url?\<close> and \<open>materials?\<close> are optional fields.
\<close>

record Blog =
  blog_id :: string
  blog_title :: utf16
  blog_content :: string
  blog_snippet :: utf16
  blog_image :: string
  blog_tags :: "string list"
  blog_author :: string
  blog_featured :: bool
  blog_created_at :: string
  blog_updated_at :: string

datatype category = Beginner | Intermediate | Advanced

record Course =
  course_id :: string
  course_title :: string
  course_description :: string
  course_content :: string
  course_image :: string
  course_duration :: string
  course_category :: category
  course_video_url :: "string option"
  course_materials :: "string list option"
  course_featured :: bool
  course_created_at :: string
  course_updated_at :: string

text \<open>
  \<open>Omit<Blog, 'id' | 'created_at' | 'updated_at'>\<close> and the same for \<open>Course\<close>: the
  argument type of \<open>addBlog\<close> and \<open>addCourse\<close>. The three omitted keys are not fields.
\<close>

record Blog_Omit =
  new_blog_title :: utf16
  new_blog_content :: string
  new_blog_snippet :: utf16
  new_blog_image :: string
  new_blog_tags :: "string list"
  new_blog_author :: string
  new_blog_featured :: bool

record Course_Omit =
  new_course_title :: string
  new_course_description :: string
  new_course_content :: string
  new_course_image :: string
  new_course_duration :: string
  new_course_category :: category
  new_course_video_url :: "string option"
  new_course_materials :: "string list option"
  new_course_featured :: bool

text \<open>
  \<open>Partial<Blog>\<close> and \<open>Partial<Course>\<close>: every key may be absent (\<open>None\<close>).
\<close>

record Blog_Partial =
  part_blog_id :: "string option"
  part_blog_title :: "utf16 option"
  part_blog_content :: "string option"
  part_blog_snippet :: "utf16 option"
  part_blog_image :: "string option"
  part_blog_tags :: "string list option"
  part_blog_author :: "string option"
  part_blog_featured :: "bool option"
  part_blog_created_at :: "string option"
  part_blog_updated_at :: "string option"

record Course_Partial =
  part_course_id :: "string option"
  part_course_title :: "string option"
  part_course_description :: "string option"
  part_course_content :: "string option"
  part_course_image :: "string option"
  part_course_duration :: "string option"
  part_course_category :: "category option"
  part_course_video_url :: "string option"
  part_course_materials :: "string list option"
  part_course_featured :: "bool option"
  part_course_created_at :: "string option"
  part_course_updated_at :: "string option"

section \<open>The backend client as the context sees it\<close>

text \<open>
  Every call of the client resolves to \<open>{ data, error }\<close>. With \<open>.select().single()\<close>
  the result is either an error or one row, so it is a sum (\<open>Inl\<close> the error); a delete
  resolves to \<open>{ error }\<close> alone. The client is a parameter of every operation: what the
  hosted backend answers is not decided by this repository.
\<close>

datatype PostgrestError = PostgrestError string

record supabase =
  from_blogs_insert :: "Blog_Omit \<Rightarrow> PostgrestError + Blog"
  from_blogs_update :: "Blog_Partial \<Rightarrow> string \<Rightarrow> PostgrestError + Blog"
  from_blogs_delete :: "string \<Rightarrow> PostgrestError option"
  from_courses_insert :: "Course_Omit \<Rightarrow> PostgrestError + Course"
  from_courses_update :: "Course_Partial \<Rightarrow> string \<Rightarrow> PostgrestError + Course"
  from_courses_delete :: "string \<Rightarrow> PostgrestError option"

text \<open>The requests a data operation sends, in the order they are sent.\<close>

datatype request =
    Insert_blogs Blog_Omit
  | Update_blogs Blog_Partial string
  | Delete_blogs string
  | Insert_courses Course_Omit
  | Update_courses Course_Partial string
  | Delete_courses string

section \<open>AppProvider (src/src/context/AppContext.tsx)\<close>

text \<open>
  The state cells of \<open>AppProvider\<close> (\<open>blogs\<close>, \<open>courses\<close>, \<open>darkMode\<close>, \<open>loading\<close>)
  together with what an operation does to the outside: lines written by
  \<open>console.error\<close>, messages shown by \<open>alert\<close>, and the requests sent to the backend.
  \<open>unicode\<close> holds the Unicode tables of the JavaScript engine the page runs on, which
  no operation changes. The six operations that change data follow; each runs from its request to the state
  update or the rethrow without another operation in between.
\<close>

record world =
  blogs :: "Blog list"
  courses :: "Course list"
  darkMode :: bool
  loading :: bool
  console :: "(string \<times> PostgrestError) list"
  alerts :: "string list"
  network :: "request list"
  unicode :: unicode_tables

text \<open>An \<open>async\<close> function of type \<open>Promise<void>\<close> resolves, or rejects with the error thrown.\<close>

datatype completion = Resolved | Rejected PostgrestError

definition console_error :: "string \<Rightarrow> PostgrestError \<Rightarrow> world \<Rightarrow> world" where
  "console_error label e w = w\<lparr>console := console w @ [(label, e)]\<rparr>"

definition send :: "request \<Rightarrow> world \<Rightarrow> world" where
  "send r w = w\<lparr>network := network w @ [r]\<rparr>"

definition addBlog :: "supabase \<Rightarrow> Blog_Omit \<Rightarrow> world \<Rightarrow> completion \<times> world" where
  "addBlog sb blog w =
     (let w1 = send (Insert_blogs blog) w in
      case from_blogs_insert sb blog of
        Inl error \<Rightarrow> (Rejected error, console_error ''Error adding blog:'' error w1)
      | Inr data \<Rightarrow> (Resolved, w1\<lparr>blogs := data # blogs w1\<rparr>))"

text \<open>
  \<open>updateBlog\<close> sends \<open>{ ...updatedBlog, updated_at: new Date().toISOString() }\<close>;
  \<open>now\<close> is that reading of the browser's clock.
\<close>

definition updateBlog ::
  "supabase \<Rightarrow> string \<Rightarrow> string \<Rightarrow> Blog_Partial \<Rightarrow> world \<Rightarrow> completion \<times> world" where
  "updateBlog sb now ident updatedBlog w =
     (let payload = updatedBlog\<lparr>part_blog_updated_at := Some now\<rparr>;
          w1 = send (Update_blogs payload ident) w in
      case from_blogs_update sb payload ident of
        Inl error \<Rightarrow> (Rejected error, console_error ''Error updating blog:'' error w1)
      | Inr data \<Rightarrow>
          (Resolved, w1\<lparr>blogs := map (\<lambda>blog. if blog_id blog = ident then data else blog) (blogs w1)\<rparr>))"

definition deleteBlog :: "supabase \<Rightarrow> string \<Rightarrow> world \<Rightarrow> completion \<times> world" where
  "deleteBlog sb ident w =
     (let w1 = send (Delete_blogs ident) w in
      case from_blogs_delete sb ident of
        Some error \<Rightarrow> (Rejected error, console_error ''Error deleting blog:'' error w1)
      | None \<Rightarrow> (Resolved, w1\<lparr>blogs := filter (\<lambda>blog. blog_id blog \<noteq> ident) (blogs w1)\<rparr>))"

definition addCourse :: "supabase \<Rightarrow> Course_Omit \<Rightarrow> world \<Rightarrow> completion \<times> world" where
  "addCourse sb course w =
     (let w1 = send (Insert_courses course) w in
      case from_courses_insert sb course of
        Inl error \<Rightarrow> (Rejected error, console_error ''Error adding course:'' error w1)
      | Inr data \<Rightarrow> (Resolved, w1\<lparr>courses := data # courses w1\<rparr>))"

definition updateCourse ::
  "supabase \<Rightarrow> string \<Rightarrow> string \<Rightarrow> Course_Partial \<Rightarrow> world \<Rightarrow> completion \<times> world" where
  "updateCourse sb now ident updatedCourse w =
     (let payload = updatedCourse\<lparr>part_course_updated_at := Some now\<rparr>;
          w1 = send (Update_courses payload ident) w in
      case from_courses_update sb payload ident of
        Inl error \<Rightarrow> (Rejected error, console_error ''Error updating course:'' error w1)
      | Inr data \<Rightarrow>
          (Resolved,
           w1\<lparr>courses := map (\<lambda>course. if course_id course = ident then data else course) (courses w1)\<rparr>))"

definition deleteCourse :: "supabase \<Rightarrow> string \<Rightarrow> world \<Rightarrow> completion \<times> world" where
  "deleteCourse sb ident w =
     (let w1 = send (Delete_courses ident) w in
      case from_courses_delete sb ident of
        Some error \<Rightarrow> (Rejected error, console_error ''Error deleting course:'' error w1)
      | None \<Rightarrow>
          (Resolved, w1\<lparr>courses := filter (\<lambda>course. course_id course \<noteq> ident) (courses w1)\<rparr>))"

section \<open>The blogs page (src/src/pages/Blogs.tsx)\<close>

record Blog_form =
  form_title :: utf16
  form_content :: string
  form_snippet :: utf16
  form_image :: string
  form_tags :: string
  form_author :: string
  form_featured :: bool

record Blogs_page =
  searchTerm :: utf16
  selectedTag :: string
  showModal :: bool
  editingBlog :: "Blog option"
  formData :: Blog_form

definition empty_form :: Blog_form where
  "empty_form = \<lparr>form_title = [], form_content = '''', form_snippet = [], form_image = '''',
     form_tags = '''', form_author = '''', form_featured = False\<rparr>"

text \<open>\<open>Array.from(new Set(xs))\<close> keeps the first occurrence of each element, in order.\<close>

definition allTags :: "world \<Rightarrow> string list" where
  "allTags w = rev (remdups (rev (concat (map blog_tags (blogs w)))))"

definition filteredBlogs :: "world \<Rightarrow> Blogs_page \<Rightarrow> Blog list" where
  "filteredBlogs w page =
     filter (\<lambda>blog.
        let matchesSearch =
              (str_includes (toLowerCase (unicode w) (blog_title blog))
                 (toLowerCase (unicode w) (searchTerm page))
               \<or> str_includes (toLowerCase (unicode w) (blog_snippet blog))
                    (toLowerCase (unicode w) (searchTerm page)));
            matchesTag = (selectedTag page = [] \<or> selectedTag page \<in> set (blog_tags blog))
        in matchesSearch \<and> matchesTag)
      (blogs w)"

definition alert :: "string \<Rightarrow> world \<Rightarrow> world" where
  "alert msg w = w\<lparr>alerts := alerts w @ [msg]\<rparr>"

text \<open>
  \<open>blogData = { ...formData, tags: formData.tags.split(',').map(tag => tag.trim()).filter(tag => tag) }\<close>,
  and the same object passed where a \<open>Partial<Blog>\<close> is expected.
\<close>

definition blogData :: "Blog_form \<Rightarrow> Blog_Omit" where
  "blogData f = \<lparr>new_blog_title = form_title f, new_blog_content = form_content f,
     new_blog_snippet = form_snippet f, new_blog_image = form_image f,
     new_blog_tags = filter (\<lambda>tag. tag \<noteq> []) (map trim (split_on (CHR '','') (form_tags f))),
     new_blog_author = form_author f, new_blog_featured = form_featured f\<rparr>"

definition as_Partial :: "Blog_Omit \<Rightarrow> Blog_Partial" where
  "as_Partial b = \<lparr>part_blog_id = None, part_blog_title = Some (new_blog_title b),
     part_blog_content = Some (new_blog_content b), part_blog_snippet = Some (new_blog_snippet b),
     part_blog_image = Some (new_blog_image b), part_blog_tags = Some (new_blog_tags b),
     part_blog_author = Some (new_blog_author b), part_blog_featured = Some (new_blog_featured b),
     part_blog_created_at = None, part_blog_updated_at = None\<rparr>"

definition handleSubmit ::
  "supabase \<Rightarrow> string \<Rightarrow> Blogs_page \<times> world \<Rightarrow> Blogs_page \<times> world" where
  "handleSubmit sb now pw =
     (let page = fst pw; w = snd pw;
          saved = (case editingBlog page of
                     Some b \<Rightarrow> updateBlog sb now (blog_id b) (as_Partial (blogData (formData page))) w
                   | None \<Rightarrow> addBlog sb (blogData (formData page)) w)
      in case fst saved of
           Resolved \<Rightarrow>
             (page\<lparr>formData := empty_form, showModal := False, editingBlog := None\<rparr>, snd saved)
         | Rejected error \<Rightarrow>
             (page, alert ''Error saving blog. Please try again.''
                      (console_error ''Error saving blog:'' error (snd saved))))"

text \<open>\<open>confirmed\<close> is the answer of \<open>window.confirm\<close>.\<close>

definition handleDelete :: "supabase \<Rightarrow> bool \<Rightarrow> string \<Rightarrow> world \<Rightarrow> world" where
  "handleDelete sb confirmed ident w =
     (if confirmed then
        (let deleted = deleteBlog sb ident w in
         case fst deleted of
           Resolved \<Rightarrow> snd deleted
         | Rejected error \<Rightarrow>
             alert ''Error deleting blog. Please try again.''
               (console_error ''Error deleting blog:'' error (snd deleted)))
      else w)"

section \<open>The call site of the course operations\<close>

text \<open>
  Modelled from the spec: the courses page (\<open>pages/Courses\<close>, imported by the router but
  not among the source files) is the call site of \<open>addCourse\<close>, \<open>updateCourse\<close> and
  \<open>deleteCourse\<close>. The spec's error handling design says that an error from the backend
  client is caught at the call site, logged, and surfaced as a generic user-facing
  message, with no retry. \<open>label\<close> is the line logged and \<open>msg\<close> the message shown: both
  are fixed by the page, neither depends on the error.
\<close>

definition Courses_call_site ::
  "string \<Rightarrow> string \<Rightarrow> (world \<Rightarrow> completion \<times> world) \<Rightarrow> world \<Rightarrow> world" where
  "Courses_call_site label msg operation w =
     (let ended = operation w in
      case fst ended of
        Resolved \<Rightarrow> snd ended
      | Rejected error \<Rightarrow> alert msg (console_error label error (snd ended)))"

section \<open>Admin-only controls\<close>

text \<open>
  What a component renders, as the list of its elements in document order. A child
  component whose source is elsewhere (\<open>BlogCard\<close>, \<open>RichTextEditor\<close>) is one element.
  An icon button is named by its icon, a text input carries its label and the code units
  of its value. Decoration that is neither a control nor data
  (icons beside a text, the paragraphs under the heading of the empty state) is not listed.
\<close>

datatype element =
    Spinner
  | Heading string
  | Paragraph string
  | Search_input utf16
  | Tag_select "string list" string
  | Button string
  | Icon_button string
  | Link string string
  | Image string
  | Badge string
  | Text_input string utf16
  | Checkbox string bool
  | RichTextEditor string
  | BlogCard Blog
  | Rule

text \<open>
  The value of \<open>useAuth()\<close> as the components read it: \<open>user\<close>, \<open>profile\<close>, \<open>isAdmin\<close>,
  \<open>isInstructor\<close>. The profile fields are those the profile menu shows, which are
  columns of \<open>user_profiles\<close>.
\<close>

record Profile =
  profile_email :: string
  profile_full_name :: "string option"
  profile_avatar_url :: "string option"
  profile_role :: string

record auth =
  user :: "string option"
  profile :: "Profile option"
  isAdmin :: bool
  isInstructor :: bool

text \<open>
  Modelled from the spec: \<open>AuthProvider\<close> (\<open>components/Auth/AuthProvider\<close>), which computes
  the value of \<open>useAuth()\<close>, is not among the source files. The spec's component design
  says that the authorization check is a single role-string comparison.
\<close>

definition useAuth :: "string option \<Rightarrow> Profile option \<Rightarrow> auth" where
  "useAuth u p =
     \<lparr>user = u, profile = p,
      isAdmin = (case p of None \<Rightarrow> False | Some q \<Rightarrow> profile_role q = ''admin''),
      isInstructor = (case p of None \<Rightarrow> False | Some q \<Rightarrow> profile_role q = ''instructor'')\<rparr>"

text \<open>\<open>Blogs\<close> (src/src/pages/Blogs.tsx, the returned JSX).\<close>

definition Blogs_modal :: "Blogs_page \<Rightarrow> element list" where
  "Blogs_modal page =
     [Heading (if editingBlog page \<noteq> None then ''Edit Blog Post'' else ''Add New Blog Post''),
      Icon_button ''X'',
      Text_input ''Title'' (form_title (formData page)),
      Text_input ''Author'' (js (form_author (formData page))),
      Text_input ''Snippet'' (form_snippet (formData page)),
      RichTextEditor (form_content (formData page)),
      Text_input ''Image URL'' (js (form_image (formData page))),
      Text_input ''Tags (comma-separated)'' (js (form_tags (formData page))),
      Checkbox ''Featured Post'' (form_featured (formData page)),
      Button ((if editingBlog page \<noteq> None then ''Update'' else ''Create'') @ '' Blog Post''),
      Button ''Cancel'']"

definition Blogs :: "auth \<Rightarrow> world \<Rightarrow> Blogs_page \<Rightarrow> element list" where
  "Blogs a w page =
     (if loading w then [Spinner]
      else
        [Heading ''Robotics Blog'',
         Paragraph ''Explore the latest insights, tutorials, and trends in robotics technology'',
         Search_input (searchTerm page),
         Tag_select (allTags w) (selectedTag page)]
        @ (if isAdmin a then [Button ''Add Blog''] else [])
        @ (if filteredBlogs w page = []
           then [Heading (if blogs w = [] then ''Coming Soon!'' else ''No Results Found'')]
           else map BlogCard (filteredBlogs w page))
        @ (if showModal page then Blogs_modal page else []))"

text \<open>\<open>CourseCard\<close> (src/src/components/CourseCard/CourseCard.tsx).\<close>

definition category_text :: "category \<Rightarrow> string" where
  "category_text c =
     (case c of Beginner \<Rightarrow> ''Beginner'' | Intermediate \<Rightarrow> ''Intermediate'' | Advanced \<Rightarrow> ''Advanced'')"

definition CourseCard :: "auth \<Rightarrow> Course \<Rightarrow> element list" where
  "CourseCard a course =
     [Image (course_image course)]
     @ (if course_featured course then [Badge ''Featured''] else [])
     @ [Badge (category_text (course_category course))]
     @ (if isAdmin a then [Icon_button ''Edit'', Icon_button ''Trash2''] else [])
     @ [Heading (course_title course),
        Paragraph (course_description course),
        Paragraph (course_duration course),
        Paragraph ''1,234 students'',
        Paragraph ''4.8'',
        Link (''/course/'' @ course_id course) ''View Course'']"

text \<open>
  \<open>UserProfile\<close> (src/src/components/Features/UserProfile.tsx); \<open>isOpen\<close> is its state
  cell. \<open>x || 'User'\<close> is \<open>'User'\<close> when \<open>x\<close> is null or the empty string.
\<close>

definition or_User :: "string option \<Rightarrow> string" where
  "or_User x = (case x of None \<Rightarrow> ''User'' | Some s \<Rightarrow> if s = [] then ''User'' else s)"

text \<open>The avatar is the image at \<open>avatar_url\<close> when there is one, and an icon otherwise.\<close>

definition avatar :: "Profile \<Rightarrow> element list" where
  "avatar p =
     (case profile_avatar_url p of
        None \<Rightarrow> []
      | Some url \<Rightarrow> if url = [] then [] else [Image url])"

definition UserProfile :: "auth \<Rightarrow> bool \<Rightarrow> element list" where
  "UserProfile a isOpen =
     (case (user a, profile a) of
        (Some u, Some p) \<Rightarrow>
          avatar p @ [Button (or_User (profile_full_name p))]
          @ (if isOpen then
               avatar p
               @ [Heading (or_User (profile_full_name p)), Paragraph (profile_email p),
                Badge (profile_role p),
                Link ''/profile'' ''Profile Settings'',
                Link ''/my-courses'' ''My Courses'',
                Link ''/bookmarks'' ''Bookmarks'']
               @ (if isAdmin a then [Link ''/admin'' ''Admin Panel''] else [])
               @ [Rule, Button ''Sign Out'']
             else [])
      | _ \<Rightarrow> [])"

section \<open>The signup page (src/unnamed/part_000)\<close>

datatype role = user_role | admin_role | instructor_role

record Signup_form =
  email :: string
  password :: string
  confirmPassword :: string
  fullName :: string
  role :: role

record Signup =
  showPassword :: bool
  showConfirmPassword :: bool
  signup_loading :: bool
  signup_formData :: Signup_form
  signup_error :: "string option"
  signup_success :: "string option"
  adminSecretKey :: string

definition ADMIN_SECRET :: string where
  "ADMIN_SECRET = ''robostaan_admin_2024''"

text \<open>
  The argument of \<open>supabase.auth.signUp\<close> (\<open>{ email, password, options: { data: { full_name,
  role } } }\<close>), what it resolves to (\<open>data.user\<close> may be null, \<open>data.session\<close> is present or
  not), and the row inserted into \<open>user_profiles\<close>. \<open>data.user.email!\<close> may be undefined.
\<close>

record signUp_credentials =
  signUp_email :: string
  signUp_password :: string
  signUp_full_name :: string
  signUp_role :: role

record AuthUser =
  auth_user_id :: string
  auth_user_email :: "string option"

record AuthData =
  data_user :: "AuthUser option"
  data_session :: bool

datatype AuthError = AuthError string

record user_profiles_insert =
  ins_user_id :: string
  ins_email :: "string option"
  ins_full_name :: string
  ins_role :: role

record auth_backend =
  auth_signUp :: "signUp_credentials \<Rightarrow> AuthError + AuthData"
  from_user_profiles_insert :: "user_profiles_insert \<Rightarrow> PostgrestError option"

text \<open>What a submission does to the outside, in order.\<close>

datatype signup_effect =
    SignUp_request signUp_credentials
  | Profile_insert_request user_profiles_insert
  | Console_error_signup string AuthError
  | Console_error_profile string PostgrestError
  | Navigate_after nat string

text \<open>\<open>error.message || 'An error occurred during signup'\<close>.\<close>

definition message_or :: "AuthError \<Rightarrow> string" where
  "message_or err =
     (case err of AuthError m \<Rightarrow> if m = [] then ''An error occurred during signup'' else m)"

definition reset_form :: Signup_form where
  "reset_form = \<lparr>email = '''', password = '''', confirmPassword = '''', fullName = '''',
     role = user_role\<rparr>"

definition Signup_handleSubmit :: "auth_backend \<Rightarrow> Signup \<Rightarrow> Signup \<times> signup_effect list" where
  "Signup_handleSubmit sb st =
     (let f = signup_formData st;
          st1 = st\<lparr>signup_loading := True, signup_error := None, signup_success := None\<rparr>
      in
      if password f \<noteq> confirmPassword f then
        (st1\<lparr>signup_error := Some ''Passwords do not match'', signup_loading := False\<rparr>, [])
      else if length (password f) < 6 then
        (st1\<lparr>signup_error := Some ''Password must be at least 6 characters long'',
             signup_loading := False\<rparr>, [])
      else if role f = admin_role \<and> adminSecretKey st \<noteq> ADMIN_SECRET then
        (st1\<lparr>signup_error := Some ''Invalid admin secret key'', signup_loading := False\<rparr>, [])
      else
        (let credentials = \<lparr>signUp_email = email f, signUp_password = password f,
                             signUp_full_name = fullName f, signUp_role = role f\<rparr>
         in
         case auth_signUp sb credentials of
           Inl err \<Rightarrow>
             (st1\<lparr>signup_error := Some (message_or err), signup_loading := False\<rparr>,
              [SignUp_request credentials, Console_error_signup ''Signup error:'' err])
         | Inr data \<Rightarrow>
             (case data_user data of
                None \<Rightarrow> (st1\<lparr>signup_loading := False\<rparr>, [SignUp_request credentials])
              | Some u \<Rightarrow>
                  (let row = \<lparr>ins_user_id = auth_user_id u, ins_email = auth_user_email u,
                               ins_full_name = fullName f, ins_role = role f\<rparr>;
                       logged = (case from_user_profiles_insert sb row of
                                   Some profileError \<Rightarrow>
                                     [Console_error_profile ''Profile creation error:'' profileError]
                                 | None \<Rightarrow> [])
                   in
                   (st1\<lparr>signup_success :=
                          Some (if data_session data
                                then ''Account created successfully! Redirecting...''
                                else ''Account created successfully! Please check your email to confirm your account.''),
                        signup_formData := reset_form, adminSecretKey := '''',
                        signup_loading := False\<rparr>,
                    [SignUp_request credentials, Profile_insert_request row] @ logged
                    @ [if data_session data then Navigate_after 2000 ''/''
                       else Navigate_after 3000 ''/login''])))))"

section \<open>The schema (src/supabase/migrations)\<close>

text \<open>
  Both migrations create the tables with \<open>CREATE TABLE IF NOT EXISTS\<close> and the same
  columns and constraints, so the earlier one decides. A nullable column holds
  \<open>'a option\<close> (\<open>None\<close> is NULL); a condition evaluates to TRUE, FALSE or NULL, and a
  \<open>CHECK\<close> constraint passes unless its condition is FALSE. Row-level-security policies
  decide whether a statement of a given user runs at all; the functions below say what a
  statement that runs does.
\<close>

type_synonym uuid = string
type_synonym timestamptz = string

definition sql_and :: "bool option \<Rightarrow> bool option \<Rightarrow> bool option" where
  "sql_and a b =
     (if a = Some False \<or> b = Some False then Some False
      else if a = None \<or> b = None then None else Some True)"

definition sql_or :: "bool option \<Rightarrow> bool option \<Rightarrow> bool option" where
  "sql_or a b =
     (if a = Some True \<or> b = Some True then Some True
      else if a = None \<or> b = None then None else Some False)"

definition sql_ge :: "int option \<Rightarrow> int option \<Rightarrow> bool option" where
  "sql_ge a b = (case (a, b) of (Some x, Some y) \<Rightarrow> Some (y \<le> x) | _ \<Rightarrow> None)"

definition sql_le :: "int option \<Rightarrow> int option \<Rightarrow> bool option" where
  "sql_le a b = (case (a, b) of (Some x, Some y) \<Rightarrow> Some (x \<le> y) | _ \<Rightarrow> None)"

definition is_null :: "'a option \<Rightarrow> bool option" where
  "is_null a = Some (a = None)"

definition is_not_null :: "'a option \<Rightarrow> bool option" where
  "is_not_null a = Some (a \<noteq> None)"

definition check_passes :: "bool option \<Rightarrow> bool" where
  "check_passes condition = (condition \<noteq> Some False)"

datatype sql_error =
    numeric_value_out_of_range string
  | not_null_violation string
  | check_violation string
  | unique_violation string
  | foreign_key_violation string

text \<open>A foreign key is satisfied by NULL or by a key of the referenced table.\<close>

definition references :: "uuid option \<Rightarrow> uuid list \<Rightarrow> bool" where
  "references k keys = (case k of None \<Rightarrow> True | Some v \<Rightarrow> v \<in> set keys)"

text \<open>
  A statement on a table of rows \<open>'r\<close>. \<open>INSERT assign\<close> inserts the row of column
  defaults with the statement's values assigned; \<open>UPDATE assign cond\<close> is
  \<open>UPDATE ... SET ... WHERE cond\<close>; \<open>DELETE cond\<close> is \<open>DELETE ... WHERE cond\<close>. Every
  foreign key of the schema is \<open>ON DELETE CASCADE\<close>: deleting a user, a blog or a course
  deletes the rows that refer to it, which is a \<open>DELETE\<close> of those rows.
\<close>

datatype 'r statement =
    INSERT "'r \<Rightarrow> 'r"
  | UPDATE "'r \<Rightarrow> 'r" "'r \<Rightarrow> bool"
  | DELETE "'r \<Rightarrow> bool"

record enrollment =
  enrollment_id :: "uuid option"
  enrollment_user_id :: "uuid option"
  enrollment_course_id :: "uuid option"
  enrolled_at :: "timestamptz option"
  progress :: "int option"
  completed_at :: "timestamptz option"

record comment =
  comment_id :: "uuid option"
  comment_user_id :: "uuid option"
  comment_blog_id :: "uuid option"
  comment_course_id :: "uuid option"
  comment_content :: "string option"
  comment_parent_id :: "uuid option"
  comment_created_at :: "timestamptz option"
  comment_updated_at :: "timestamptz option"

text \<open>
  The rows of \<open>blogs\<close> and \<open>courses\<close> have the shape of the client's interfaces \<open>Blog\<close>
  and \<open>Course\<close>: these are the rows the client's operations can write.
\<close>

record database =
  auth_users :: "uuid list"
  blogs_table :: "Blog list"
  courses_table :: "Course list"
  course_enrollments :: "enrollment list"
  comments :: "comment list"

subsection \<open>course_enrollments\<close>

text \<open>
  \<open>fresh\<close> is the value of \<open>gen_random_uuid()\<close> and \<open>now\<close> that of \<open>now()\<close> when the
  statement runs.
\<close>

definition enrollment_defaults :: "uuid \<Rightarrow> timestamptz \<Rightarrow> enrollment" where
  "enrollment_defaults fresh now =
     \<lparr>enrollment_id = Some fresh, enrollment_user_id = None, enrollment_course_id = None,
      enrolled_at = Some now, progress = Some 0, completed_at = None\<rparr>"

text \<open>
  What one row must satisfy: \<open>progress\<close> is an \<open>integer\<close> (32 bits), \<open>id\<close> is a primary
  key, hence not null, and \<open>CHECK (progress >= 0 AND progress <= 100)\<close>.
\<close>

definition enrollment_row_error :: "enrollment \<Rightarrow> sql_error option" where
  "enrollment_row_error r =
     (if (case progress r of None \<Rightarrow> False | Some p \<Rightarrow> p < - (2 ^ 31) \<or> 2 ^ 31 \<le> p)
      then Some (numeric_value_out_of_range ''integer'')
      else if enrollment_id r = None then Some (not_null_violation ''id'')
      else if \<not> check_passes (sql_and (sql_ge (progress r) (Some 0)) (sql_le (progress r) (Some 100)))
      then Some (check_violation ''course_enrollments_progress_check'')
      else None)"

text \<open>
  What the table must satisfy once the rows \<open>written\<close> are in it: the primary key,
  \<open>UNIQUE(user_id, course_id)\<close> (rows with a NULL in the pair never collide), and the two
  foreign keys of the written rows. A statement fails when any of these fails; when
  several fail, the one reported is the first in this order.
\<close>

definition enrollment_pair :: "enrollment \<Rightarrow> (uuid \<times> uuid) option" where
  "enrollment_pair r =
     (case (enrollment_user_id r, enrollment_course_id r) of
        (Some u, Some c) \<Rightarrow> Some (u, c) | _ \<Rightarrow> None)"

definition enrollments_error ::
  "database \<Rightarrow> enrollment list \<Rightarrow> enrollment list \<Rightarrow> sql_error option" where
  "enrollments_error db written rows =
     (case List.find (\<lambda>r. enrollment_row_error r \<noteq> None) written of
        Some r \<Rightarrow> enrollment_row_error r
      | None \<Rightarrow>
          if \<not> distinct (map enrollment_id rows)
          then Some (unique_violation ''course_enrollments_pkey'')
          else if \<not> distinct (filter (\<lambda>k. k \<noteq> None) (map enrollment_pair rows))
          then Some (unique_violation ''course_enrollments_user_id_course_id_key'')
          else if \<not> list_all (\<lambda>r. references (enrollment_user_id r) (auth_users db)) written
          then Some (foreign_key_violation ''course_enrollments_user_id_fkey'')
          else if \<not> list_all (\<lambda>r. references (enrollment_course_id r)
                                   (map course_id (courses_table db))) written
          then Some (foreign_key_violation ''course_enrollments_course_id_fkey'')
          else None)"

definition execute_enrollments ::
  "uuid \<Rightarrow> timestamptz \<Rightarrow> enrollment statement \<Rightarrow> database \<Rightarrow> sql_error + database" where
  "execute_enrollments fresh now stmt db =
     (case stmt of
        INSERT assign \<Rightarrow>
          (let r = assign (enrollment_defaults fresh now);
               rows = course_enrollments db @ [r]
           in case enrollments_error db [r] rows of
                Some e \<Rightarrow> Inl e
              | None \<Rightarrow> Inr (db\<lparr>course_enrollments := rows\<rparr>))
      | UPDATE assign cond \<Rightarrow>
          (let written = map assign (filter cond (course_enrollments db));
               rows = map (\<lambda>r. if cond r then assign r else r) (course_enrollments db)
           in case enrollments_error db written rows of
                Some e \<Rightarrow> Inl e
              | None \<Rightarrow> Inr (db\<lparr>course_enrollments := rows\<rparr>))
      | DELETE cond \<Rightarrow>
          Inr (db\<lparr>course_enrollments := filter (\<lambda>r. \<not> cond r) (course_enrollments db)\<rparr>))"

subsection \<open>comments\<close>

definition comment_defaults :: "uuid \<Rightarrow> timestamptz \<Rightarrow> comment" where
  "comment_defaults fresh now =
     \<lparr>comment_id = Some fresh, comment_user_id = None, comment_blog_id = None,
      comment_course_id = None, comment_content = None, comment_parent_id = None,
      comment_created_at = Some now, comment_updated_at = Some now\<rparr>"

text \<open>
  \<open>id\<close> and \<open>content\<close> are not null, and
  \<open>CHECK ((blog_id IS NOT NULL AND course_id IS NULL) OR (blog_id IS NULL AND course_id IS NOT NULL))\<close>.
\<close>

definition comment_row_error :: "comment \<Rightarrow> sql_error option" where
  "comment_row_error r =
     (if comment_id r = None then Some (not_null_violation ''id'')
      else if comment_content r = None then Some (not_null_violation ''content'')
      else if \<not> check_passes
                 (sql_or (sql_and (is_not_null (comment_blog_id r)) (is_null (comment_course_id r)))
                         (sql_and (is_null (comment_blog_id r)) (is_not_null (comment_course_id r))))
      then Some (check_violation ''comments_check'')
      else None)"

definition comments_error :: "database \<Rightarrow> comment list \<Rightarrow> comment list \<Rightarrow> sql_error option" where
  "comments_error db written rows =
     (case List.find (\<lambda>r. comment_row_error r \<noteq> None) written of
        Some r \<Rightarrow> comment_row_error r
      | None \<Rightarrow>
          if \<not> distinct (map comment_id rows)
          then Some (unique_violation ''comments_pkey'')
          else if \<not> list_all (\<lambda>r. references (comment_user_id r) (auth_users db)) written
          then Some (foreign_key_violation ''comments_user_id_fkey'')
          else if \<not> list_all (\<lambda>r. references (comment_blog_id r)
                                   (map blog_id (blogs_table db))) written
          then Some (foreign_key_violation ''comments_blog_id_fkey'')
          else if \<not> list_all (\<lambda>r. references (comment_course_id r)
                                   (map course_id (courses_table db))) written
          then Some (foreign_key_violation ''comments_course_id_fkey'')
          else if \<not> list_all (\<lambda>r. comment_parent_id r = None
                                   \<or> comment_parent_id r \<in> set (map comment_id rows)) rows
          then Some (foreign_key_violation ''comments_parent_id_fkey'')
          else None)"

text \<open>
  \<open>parent_id ... ON DELETE CASCADE\<close>: deleting comments deletes their replies, and so on.
  Each round removes the rows whose parent was removed in the round before; a table of
  \<open>n\<close> rows needs at most \<open>n\<close> rounds.
\<close>

fun cascade :: "nat \<Rightarrow> uuid option list \<Rightarrow> comment list \<Rightarrow> comment list" where
  "cascade 0 removed rows = rows"
| "cascade (Suc n) removed rows =
     (let orphaned = (\<lambda>r. comment_parent_id r \<noteq> None \<and> comment_parent_id r \<in> set removed) in
      if filter orphaned rows = [] then rows
      else cascade n (map comment_id (filter orphaned rows)) (filter (\<lambda>r. \<not> orphaned r) rows))"

definition execute_comments ::
  "uuid \<Rightarrow> timestamptz \<Rightarrow> comment statement \<Rightarrow> database \<Rightarrow> sql_error + database" where
  "execute_comments fresh now stmt db =
     (case stmt of
        INSERT assign \<Rightarrow>
          (let r = assign (comment_defaults fresh now);
               rows = comments db @ [r]
           in case comments_error db [r] rows of
                Some e \<Rightarrow> Inl e
              | None \<Rightarrow> Inr (db\<lparr>comments := rows\<rparr>))
      | UPDATE assign cond \<Rightarrow>
          (let written = map assign (filter cond (comments db));
               rows = map (\<lambda>r. if cond r then assign r else r) (comments db)
           in case comments_error db written rows of
                Some e \<Rightarrow> Inl e
              | None \<Rightarrow> Inr (db\<lparr>comments := rows\<rparr>))
      | DELETE cond \<Rightarrow>
          Inr (db\<lparr>comments :=
                 cascade (length (comments db)) (map comment_id (filter cond (comments db)))
                   (filter (\<lambda>r. \<not> cond r) (comments db))\<rparr>))"

text \<open>
  A session: statements with the values of \<open>gen_random_uuid()\<close> and \<open>now()\<close> at each. A
  statement that fails is rolled back and the session goes on.
\<close>

fun run_enrollments ::
  "(uuid \<times> timestamptz \<times> enrollment statement) list \<Rightarrow> database \<Rightarrow> database" where
  "run_enrollments [] db = db"
| "run_enrollments ((fresh, now, stmt) # rest) db =
     (case execute_enrollments fresh now stmt db of
        Inl e \<Rightarrow> run_enrollments rest db
      | Inr db' \<Rightarrow> run_enrollments rest db')"

fun run_comments ::
  "(uuid \<times> timestamptz \<times> comment statement) list \<Rightarrow> database \<Rightarrow> database" where
  "run_comments [] db = db"
| "run_comments ((fresh, now, stmt) # rest) db =
     (case execute_comments fresh now stmt db of
        Inl e \<Rightarrow> run_comments rest db
      | Inr db' \<Rightarrow> run_comments rest db')"

subsection \<open>blogs and courses\<close>

text \<open>
  \<open>INSERT INTO blogs (title, content, snippet, image, tags, author, featured) ... RETURNING *\<close>
  for the keys of the inserted object. \<open>id\<close>, \<open>created_at\<close> and \<open>updated_at\<close> are not
  among them and take their defaults \<open>gen_random_uuid()\<close>, \<open>now()\<close> and \<open>now()\<close>; the same
  for \<open>courses\<close>, where an absent \<open>materials\<close> takes its default \<open>'{}'\<close>, the empty array,
  and an absent \<open>video_url\<close> is NULL.
\<close>

definition stored_blog :: "string \<Rightarrow> string \<Rightarrow> Blog_Omit \<Rightarrow> Blog" where
  "stored_blog ident at b = \<lparr>blog_id = ident, blog_title = new_blog_title b,
     blog_content = new_blog_content b, blog_snippet = new_blog_snippet b,
     blog_image = new_blog_image b, blog_tags = new_blog_tags b,
     blog_author = new_blog_author b, blog_featured = new_blog_featured b,
     blog_created_at = at, blog_updated_at = at\<rparr>"

definition stored_course :: "string \<Rightarrow> string \<Rightarrow> Course_Omit \<Rightarrow> Course" where
  "stored_course ident at c = \<lparr>course_id = ident, course_title = new_course_title c,
     course_description = new_course_description c, course_content = new_course_content c,
     course_image = new_course_image c, course_duration = new_course_duration c,
     course_category = new_course_category c, course_video_url = new_course_video_url c,
     course_materials = (case new_course_materials c of None \<Rightarrow> Some [] | Some m \<Rightarrow> Some m),
     course_featured = new_course_featured c,
     course_created_at = at, course_updated_at = at\<rparr>"

definition insert_blogs ::
  "uuid \<Rightarrow> timestamptz \<Rightarrow> Blog_Omit \<Rightarrow> database \<Rightarrow> sql_error + Blog list \<times> database" where
  "insert_blogs fresh now payload db =
     (let row = stored_blog fresh now payload in
      if fresh \<in> set (map blog_id (blogs_table db)) then Inl (unique_violation ''blogs_pkey'')
      else Inr ([row], db\<lparr>blogs_table := blogs_table db @ [row]\<rparr>))"

definition insert_courses ::
  "uuid \<Rightarrow> timestamptz \<Rightarrow> Course_Omit \<Rightarrow> database \<Rightarrow> sql_error + Course list \<times> database" where
  "insert_courses fresh now payload db =
     (let row = stored_course fresh now payload in
      if fresh \<in> set (map course_id (courses_table db)) then Inl (unique_violation ''courses_pkey'')
      else Inr ([row], db\<lparr>courses_table := courses_table db @ [row]\<rparr>))"

text \<open>
  \<open>UPDATE blogs SET ... WHERE id = ident RETURNING *\<close>: every key present in the payload
  is assigned, the other columns keep their values. No trigger or default takes part:
  the server's clock is not read.
\<close>

definition patch_blog :: "Blog_Partial \<Rightarrow> Blog \<Rightarrow> Blog" where
  "patch_blog p r =
     \<lparr>blog_id = (case part_blog_id p of Some v \<Rightarrow> v | None \<Rightarrow> blog_id r),
      blog_title = (case part_blog_title p of Some v \<Rightarrow> v | None \<Rightarrow> blog_title r),
      blog_content = (case part_blog_content p of Some v \<Rightarrow> v | None \<Rightarrow> blog_content r),
      blog_snippet = (case part_blog_snippet p of Some v \<Rightarrow> v | None \<Rightarrow> blog_snippet r),
      blog_image = (case part_blog_image p of Some v \<Rightarrow> v | None \<Rightarrow> blog_image r),
      blog_tags = (case part_blog_tags p of Some v \<Rightarrow> v | None \<Rightarrow> blog_tags r),
      blog_author = (case part_blog_author p of Some v \<Rightarrow> v | None \<Rightarrow> blog_author r),
      blog_featured = (case part_blog_featured p of Some v \<Rightarrow> v | None \<Rightarrow> blog_featured r),
      blog_created_at = (case part_blog_created_at p of Some v \<Rightarrow> v | None \<Rightarrow> blog_created_at r),
      blog_updated_at = (case part_blog_updated_at p of Some v \<Rightarrow> v | None \<Rightarrow> blog_updated_at r)\<rparr>"

definition patch_course :: "Course_Partial \<Rightarrow> Course \<Rightarrow> Course" where
  "patch_course p r =
     \<lparr>course_id = (case part_course_id p of Some v \<Rightarrow> v | None \<Rightarrow> course_id r),
      course_title = (case part_course_title p of Some v \<Rightarrow> v | None \<Rightarrow> course_title r),
      course_description =
        (case part_course_description p of Some v \<Rightarrow> v | None \<Rightarrow> course_description r),
      course_content = (case part_course_content p of Some v \<Rightarrow> v | None \<Rightarrow> course_content r),
      course_image = (case part_course_image p of Some v \<Rightarrow> v | None \<Rightarrow> course_image r),
      course_duration = (case part_course_duration p of Some v \<Rightarrow> v | None \<Rightarrow> course_duration r),
      course_category = (case part_course_category p of Some v \<Rightarrow> v | None \<Rightarrow> course_category r),
      course_video_url =
        (case part_course_video_url p of Some v \<Rightarrow> Some v | None \<Rightarrow> course_video_url r),
      course_materials =
        (case part_course_materials p of Some v \<Rightarrow> Some v | None \<Rightarrow> course_materials r),
      course_featured = (case part_course_featured p of Some v \<Rightarrow> v | None \<Rightarrow> course_featured r),
      course_created_at =
        (case part_course_created_at p of Some v \<Rightarrow> v | None \<Rightarrow> course_created_at r),
      course_updated_at =
        (case part_course_updated_at p of Some v \<Rightarrow> v | None \<Rightarrow> course_updated_at r)\<rparr>"

text \<open>
  A change of \<open>id\<close> must keep the primary key unique and must not leave a row of
  \<open>comments\<close> or \<open>course_enrollments\<close> without its blog or course (the foreign keys have
  no \<open>ON UPDATE\<close> action). \<open>blog_likes\<close>, which also refers to \<open>blogs\<close>, is not modelled.
\<close>

definition update_blogs ::
  "Blog_Partial \<Rightarrow> uuid \<Rightarrow> database \<Rightarrow> sql_error + Blog list \<times> database" where
  "update_blogs payload ident db =
     (let rows = map (\<lambda>r. if blog_id r = ident then patch_blog payload r else r) (blogs_table db);
          renamed = (part_blog_id payload \<noteq> None \<and> part_blog_id payload \<noteq> Some ident
                     \<and> ident \<in> set (map blog_id (blogs_table db)))
      in
      if \<not> distinct (map blog_id rows) then Inl (unique_violation ''blogs_pkey'')
      else if renamed \<and> Some ident \<in> set (map comment_blog_id (comments db))
      then Inl (foreign_key_violation ''comments_blog_id_fkey'')
      else Inr (map (patch_blog payload) (filter (\<lambda>r. blog_id r = ident) (blogs_table db)),
                db\<lparr>blogs_table := rows\<rparr>))"

definition update_courses ::
  "Course_Partial \<Rightarrow> uuid \<Rightarrow> database \<Rightarrow> sql_error + Course list \<times> database" where
  "update_courses payload ident db =
     (let rows = map (\<lambda>r. if course_id r = ident then patch_course payload r else r)
                   (courses_table db);
          renamed = (part_course_id payload \<noteq> None \<and> part_course_id payload \<noteq> Some ident
                     \<and> ident \<in> set (map course_id (courses_table db)))
      in
      if \<not> distinct (map course_id rows) then Inl (unique_violation ''courses_pkey'')
      else if renamed \<and> Some ident \<in> set (map enrollment_course_id (course_enrollments db))
      then Inl (foreign_key_violation ''course_enrollments_course_id_fkey'')
      else if renamed \<and> Some ident \<in> set (map comment_course_id (comments db))
      then Inl (foreign_key_violation ''comments_course_id_fkey'')
      else Inr (map (patch_course payload) (filter (\<lambda>r. course_id r = ident) (courses_table db)),
                db\<lparr>courses_table := rows\<rparr>))"

text \<open>
  The client in front of the database. An error of the database comes back under its
  SQLSTATE code; \<open>.single()\<close> answers the row when the statement returned exactly one row,
  and the error \<open>PGRST116\<close> otherwise. A delete of rows that match answers no error. The
  record holds the answers to a first request on \<open>db\<close>.
\<close>

definition as_PostgrestError :: "sql_error \<Rightarrow> PostgrestError" where
  "as_PostgrestError e =
     (case e of
        numeric_value_out_of_range n \<Rightarrow> PostgrestError ''22003''
      | not_null_violation n \<Rightarrow> PostgrestError ''23502''
      | foreign_key_violation n \<Rightarrow> PostgrestError ''23503''
      | unique_violation n \<Rightarrow> PostgrestError ''23505''
      | check_violation n \<Rightarrow> PostgrestError ''23514'')"

definition single :: "sql_error + 'r list \<times> database \<Rightarrow> PostgrestError + 'r" where
  "single answer =
     (case answer of
        Inl e \<Rightarrow> Inl (as_PostgrestError e)
      | Inr (rows, db') \<Rightarrow> (case rows of [r] \<Rightarrow> Inr r | _ \<Rightarrow> Inl (PostgrestError ''PGRST116'')))"

definition hosted :: "uuid \<Rightarrow> timestamptz \<Rightarrow> database \<Rightarrow> supabase" where
  "hosted fresh now db =
     \<lparr>from_blogs_insert = (\<lambda>payload. single (insert_blogs fresh now payload db)),
      from_blogs_update = (\<lambda>payload ident. single (update_blogs payload ident db)),
      from_blogs_delete = (\<lambda>ident. None),
      from_courses_insert = (\<lambda>payload. single (insert_courses fresh now payload db)),
      from_courses_update = (\<lambda>payload ident. single (update_courses payload ident db)),
      from_courses_delete = (\<lambda>ident. None)\<rparr>"

section \<open>Sample values\<close>

definition blog1 :: Blog where
  "blog1 = \<lparr>blog_id = ''b1'', blog_title = js ''Getting Started with ROS'',
     blog_content = ''<p>ROS</p>'', blog_snippet = js ''A robot operating system primer'',
     blog_image = ''ros.png'', blog_tags = [''ROS'', ''Programming''], blog_author = ''Asha'',
     blog_featured = True, blog_created_at = ''2025-07-05T15:56:09Z'',
     blog_updated_at = ''2025-07-05T15:56:09Z''\<rparr>"

definition blog2 :: Blog where
  "blog2 = \<lparr>blog_id = ''b2'', blog_title = js ''Sensor Fusion'',
     blog_content = ''<p>IMU</p>'', blog_snippet = js ''Combining IMU and GPS'',
     blog_image = ''imu.png'', blog_tags = [''Sensors''], blog_author = ''Ravi'',
     blog_featured = False, blog_created_at = ''2025-07-06T10:00:00Z'',
     blog_updated_at = ''2025-07-06T10:00:00Z''\<rparr>"

definition new_blog :: Blog_Omit where
  "new_blog = \<lparr>new_blog_title = js ''Drones'', new_blog_content = ''<p>PX4</p>'',
     new_blog_snippet = js ''Autonomous flight'', new_blog_image = ''px4.png'',
     new_blog_tags = [''Drones''], new_blog_author = ''Asha'', new_blog_featured = False\<rparr>"

definition course1 :: Course where
  "course1 = \<lparr>course_id = ''c1'', course_title = ''Intro to Robotics'',
     course_description = ''Basics'', course_content = '''', course_image = ''intro.png'',
     course_duration = ''4 weeks'', course_category = Beginner, course_video_url = None,
     course_materials = Some [], course_featured = True,
     course_created_at = ''2025-07-05T15:56:09Z'', course_updated_at = ''2025-07-05T15:56:09Z''\<rparr>"

definition course2 :: Course where
  "course2 = \<lparr>course_id = ''c2'', course_title = ''Drone Programming'',
     course_description = ''Flight control'', course_content = ''<h2>Overview</h2>'',
     course_image = ''drone.png'', course_duration = ''8 weeks'', course_category = Advanced,
     course_video_url = Some ''https://example.org/v'', course_materials = None,
     course_featured = False, course_created_at = ''2025-07-06T10:00:00Z'',
     course_updated_at = ''2025-07-06T10:00:00Z''\<rparr>"

text \<open>
  An excerpt of the Unicode tables for the examples: it is right on the code points up to
  U+00FF, on the combining marks U+0300-U+036F, on U+0130 and on the Greek letters
  U+0391-U+03CE, and leaves every other code point alone.
\<close>

definition unicode_excerpt :: unicode_tables where
  "unicode_excerpt =
     \<lparr>toLowercase_above =
        (\<lambda>p. if p = 0x130 then [0x69, 0x307]
             else if 0x391 \<le> p \<and> p \<le> 0x3AB \<and> p \<noteq> 0x3A2 then [p + 32]
             else [p]),
      Cased =
        (\<lambda>p. (65 \<le> p \<and> p \<le> 90) \<or> (97 \<le> p \<and> p \<le> 122) \<or> p = 0xAA \<or> p = 0xB5 \<or> p = 0xBA
             \<or> (0xC0 \<le> p \<and> p \<le> 0xFF \<and> p \<noteq> 0xD7 \<and> p \<noteq> 0xF7) \<or> p = 0x130
             \<or> (0x391 \<le> p \<and> p \<le> 0x3CE \<and> p \<noteq> 0x3A2)),
      Case_Ignorable =
        (\<lambda>p. p \<in> set [0x27, 0x2E, 0x3A, 0x5E, 0x60, 0xA8, 0xAD, 0xAF, 0xB4, 0xB7, 0xB8]
             \<or> (0x300 \<le> p \<and> p \<le> 0x36F))\<rparr>"

definition world0 :: world where
  "world0 = \<lparr>blogs = [blog1, blog2], courses = [course1, course2], darkMode = False,
     loading = False, console = [], alerts = [], network = [], unicode = unicode_excerpt\<rparr>"

text \<open>A backend that accepts every request.\<close>

definition accepting :: supabase where
  "accepting = \<lparr>from_blogs_insert = (\<lambda>b. Inr (stored_blog ''b3'' ''2025-07-07T09:00:00Z'' b)),
     from_blogs_update = (\<lambda>p i. Inr blog1),
     from_blogs_delete = (\<lambda>i. None),
     from_courses_insert = (\<lambda>c. Inr (stored_course ''c3'' ''2025-07-07T09:00:00Z'' c)),
     from_courses_update = (\<lambda>p i. Inr course1),
     from_courses_delete = (\<lambda>i. None)\<rparr>"

text \<open>A backend that refuses every request with the same error.\<close>

definition refusing :: "PostgrestError \<Rightarrow> supabase" where
  "refusing e = \<lparr>from_blogs_insert = (\<lambda>b. Inl e), from_blogs_update = (\<lambda>p i. Inl e),
     from_blogs_delete = (\<lambda>i. Some e), from_courses_insert = (\<lambda>c. Inl e),
     from_courses_update = (\<lambda>p i. Inl e), from_courses_delete = (\<lambda>i. Some e)\<rparr>"

definition new_course :: Course_Omit where
  "new_course = \<lparr>new_course_title = ''ROS 2'', new_course_description = ''Nodes and topics'',
     new_course_content = '''', new_course_image = ''ros2.png'', new_course_duration = ''6 weeks'',
     new_course_category = Intermediate, new_course_video_url = None,
     new_course_materials = Some [''slides.pdf''], new_course_featured = False\<rparr>"

definition blog_patch :: Blog_Partial where
  "blog_patch = \<lparr>part_blog_id = None, part_blog_title = Some (js ''Getting Started with ROS 2''),
     part_blog_content = None, part_blog_snippet = None, part_blog_image = None,
     part_blog_tags = None, part_blog_author = None, part_blog_featured = None,
     part_blog_created_at = None, part_blog_updated_at = None\<rparr>"

definition course_patch :: Course_Partial where
  "course_patch = \<lparr>part_course_id = None, part_course_title = None,
     part_course_description = None, part_course_content = None, part_course_image = None,
     part_course_duration = Some ''5 weeks'', part_course_category = None,
     part_course_video_url = None, part_course_materials = None, part_course_featured = None,
     part_course_created_at = None, part_course_updated_at = None\<rparr>"

definition denied :: PostgrestError where
  "denied = PostgrestError ''new row violates row-level security policy''"

definition page0 :: Blogs_page where
  "page0 = \<lparr>searchTerm = [], selectedTag = '''', showModal = False, editingBlog = None,
     formData = empty_form\<rparr>"






definition student :: Profile where
  "student = \<lparr>profile_email = ''student@robostaan.com'', profile_full_name = Some ''Student'',
     profile_avatar_url = None, profile_role = ''user''\<rparr>"

definition administrator :: Profile where
  "administrator = \<lparr>profile_email = ''admin@robostaan.com'', profile_full_name = None,
     profile_avatar_url = None, profile_role = ''admin''\<rparr>"

definition page_editing :: Blogs_page where
  "page_editing = page0\<lparr>showModal := True, editingBlog := Some blog1,
     formData := \<lparr>form_title = js ''Getting Started with ROS 2'', form_content = ''<p>ROS 2</p>'',
       form_snippet = js ''A primer'', form_image = ''ros.png'', form_tags = ''ROS, Programming,'',
       form_author = ''Asha'', form_featured = True\<rparr>\<rparr>"

definition page_adding :: Blogs_page where
  "page_adding = page_editing\<lparr>editingBlog := None\<rparr>"

definition signing_up :: auth_backend where
  "signing_up = \<lparr>auth_signUp = (\<lambda>c. Inr \<lparr>data_user = Some \<lparr>auth_user_id = ''u7'',
        auth_user_email = Some (signUp_email c)\<rparr>, data_session = True\<rparr>),
     from_user_profiles_insert = (\<lambda>r. None)\<rparr>"

definition signup0 :: Signup where
  "signup0 = \<lparr>showPassword = False, showConfirmPassword = False, signup_loading = False,
     signup_formData = \<lparr>email = ''eve@example.org'', password = ''secret1'',
       confirmPassword = ''secret1'', fullName = ''Eve'', role = admin_role\<rparr>,
     signup_error = None, signup_success = None, adminSecretKey = ''guess''\<rparr>"

definition signup_mismatch :: Signup where
  "signup_mismatch = signup0\<lparr>signup_formData :=
     (signup_formData signup0)\<lparr>password := ''abc'', confirmPassword := ''abd''\<rparr>\<rparr>"

definition signup_short :: Signup where
  "signup_short = signup0\<lparr>signup_formData :=
     (signup_formData signup0)\<lparr>password := ''abc'', confirmPassword := ''abc''\<rparr>\<rparr>"

definition signup_keyed :: Signup where
  "signup_keyed = signup0\<lparr>adminSecretKey := ''robostaan_admin_2024''\<rparr>"

definition db0 :: database where
  "db0 = \<lparr>auth_users = [''u1'', ''u2''], blogs_table = [blog1, blog2],
     courses_table = [course1, course2], course_enrollments = [], comments = []\<rparr>"

definition enrol :: "uuid \<Rightarrow> uuid \<Rightarrow> int \<Rightarrow> enrollment statement" where
  "enrol u c p = INSERT (\<lambda>r. r\<lparr>enrollment_user_id := Some u, enrollment_course_id := Some c,
     progress := Some p\<rparr>)"

definition set_progress :: "uuid \<Rightarrow> int \<Rightarrow> enrollment statement" where
  "set_progress u p = UPDATE (\<lambda>r. r\<lparr>progress := Some p\<rparr>) (\<lambda>r. enrollment_user_id r = Some u)"

definition comment_on ::
  "uuid \<Rightarrow> uuid option \<Rightarrow> uuid option \<Rightarrow> string \<Rightarrow> comment statement" where
  "comment_on u b c txt = INSERT (\<lambda>r. r\<lparr>comment_user_id := Some u, comment_blog_id := b,
     comment_course_id := c, comment_content := Some txt\<rparr>)"

definition session0 :: "(uuid \<times> timestamptz \<times> enrollment statement) list" where
  "session0 =
     [(''e1'', ''2025-07-08T12:00:00Z'', enrol ''u1'' ''c1'' 40),
      (''e2'', ''2025-07-08T12:01:00Z'', enrol ''u2'' ''c1'' 150),
      (''e3'', ''2025-07-08T12:02:00Z'', set_progress ''u1'' 100),
      (''e4'', ''2025-07-08T12:03:00Z'', set_progress ''u1'' (- 5))]"

definition enrolled :: enrollment where
  "enrolled = \<lparr>enrollment_id = Some ''e1'', enrollment_user_id = Some ''u1'',
     enrollment_course_id = Some ''c1'', enrolled_at = Some ''2025-07-08T12:00:00Z'',
     progress = Some 100, completed_at = None\<rparr>"

definition thread0 :: "(uuid \<times> timestamptz \<times> comment statement) list" where
  "thread0 =
     [(''m1'', ''2025-07-08T12:00:00Z'', comment_on ''u1'' (Some ''b1'') None ''Great post''),
      (''m2'', ''2025-07-08T12:01:00Z'', comment_on ''u2'' (Some ''b1'') (Some ''c1'') ''Both''),
      (''m3'', ''2025-07-08T12:02:00Z'', comment_on ''u2'' None None ''Neither''),
      (''m4'', ''2025-07-08T12:03:00Z'', comment_on ''u2'' None (Some ''c2'') ''Nice course''),
      (''m5'', ''2025-07-08T12:04:00Z'',
         UPDATE (\<lambda>r. r\<lparr>comment_course_id := Some ''c1''\<rparr>) (\<lambda>r. comment_id r = Some ''m1''))]"

definition on_blog :: comment where
  "on_blog = \<lparr>comment_id = Some ''m1'', comment_user_id = Some ''u1'',
     comment_blog_id = Some ''b1'', comment_course_id = None,
     comment_content = Some ''Great post'', comment_parent_id = None,
     comment_created_at = Some ''2025-07-08T12:00:00Z'',
     comment_updated_at = Some ''2025-07-08T12:00:00Z''\<rparr>"

definition on_course :: comment where
  "on_course = \<lparr>comment_id = Some ''m4'', comment_user_id = Some ''u2'',
     comment_blog_id = None, comment_course_id = Some ''c2'',
     comment_content = Some ''Nice course'', comment_parent_id = None,
     comment_created_at = Some ''2025-07-08T12:03:00Z'',
     comment_updated_at = Some ''2025-07-08T12:03:00Z''\<rparr>"

definition server_clock :: timestamptz where
  "server_clock = ''2025-07-08T12:00:05Z''"

definition browser_clock :: string where
  "browser_clock = ''1999-12-31T23:59:59.000Z''"

definition patched_blog1 :: Blog where
  "patched_blog1 = blog1\<lparr>blog_title := js ''Getting Started with ROS 2'',
     blog_updated_at := browser_clock\<rparr>"

section \<open>Properties the theorems speak about\<close>

text \<open>
  An operation started in \<open>w\<close> ended as \<open>r\<close>: it rejected with \<open>e\<close>, and the two cached
  lists are those of \<open>w\<close>.
\<close>

definition rejected_unchanged :: "PostgrestError \<Rightarrow> world \<Rightarrow> completion \<times> world \<Rightarrow> bool" where
  "rejected_unchanged e w r =
     (fst r = Rejected e \<and> blogs (snd r) = blogs w \<and> courses (snd r) = courses w)"

text \<open>
  What the blogs page is meant to show. Two code units are the same letter when they are
  equal or are the capital and the small form of one letter of Basic Latin or Latin-1.
  A text contains \<open>s\<close> case-insensitively when some contiguous part of it is \<open>s\<close> letter
  by letter; a blog matches a search term when its title or its snippet contains it, and
  matches a tag when the tag is the empty string or one of the blog's tags.
\<close>

definition letter_pairs :: "(16 word \<times> 16 word) list" where
  "letter_pairs =
     zip (js ''ABCDEFGHIJKLMNOPQRSTUVWXYZ'') (js ''abcdefghijklmnopqrstuvwxyz'')
     @ map (\<lambda>n. (of_nat n, of_nat (n + 32))) ([192..<215] @ [216..<223])"

definition same_letter :: "16 word \<Rightarrow> 16 word \<Rightarrow> bool" where
  "same_letter c d = (c = d \<or> (c, d) \<in> set letter_pairs \<or> (d, c) \<in> set letter_pairs)"

definition contains_ci :: "utf16 \<Rightarrow> utf16 \<Rightarrow> bool" where
  "contains_ci txt s = (\<exists>part. sublist part txt \<and> list_all2 same_letter part s)"




text \<open>
  A failed operation started in \<open>w\<close> and left \<open>w'\<close>: exactly the one request \<open>r\<close> was
  sent, the lines \<open>logged\<close> were written to the console, and the one message \<open>msg\<close> was
  shown to the user.
\<close>

definition surfaced_once ::
  "world \<Rightarrow> world \<Rightarrow> request \<Rightarrow> (string \<times> PostgrestError) list \<Rightarrow> string \<Rightarrow> bool" where
  "surfaced_once w w' r logged msg =
     (network w' = network w @ [r] \<and> console w' = console w @ logged
      \<and> alerts w' = alerts w @ [msg])"

text \<open>A stored enrollment has no progress below 0 or above 100.\<close>

definition progress_in_range :: "enrollment \<Rightarrow> bool" where
  "progress_in_range r = (case progress r of None \<Rightarrow> True | Some p \<Rightarrow> 0 \<le> p \<and> p \<le> 100)"

text \<open>A comment refers to a blog or to a course, and not to both.\<close>

definition one_target :: "comment \<Rightarrow> bool" where
  "one_target r = ((comment_blog_id r \<noteq> None) \<noteq> (comment_course_id r \<noteq> None))"

section \<open>Theorems\<close>

subsection \<open>Adding a blog\<close>

text \<open>
  C3. If \<open>addBlog\<close> resolves, the row the backend answered (the created blog, with the id
  the server gave it) is in the blogs list of the context afterwards, at its head, and
  every blog that was in the list before is still in it, in the same order.
\<close>

theorem addBlog_includes_created:
  assumes "addBlog sb blog w = (Resolved, w')"
  shows "\<exists>data. from_blogs_insert sb blog = Inr data \<and> blogs w' = data # blogs w
           \<and> data \<in> set (blogs w') \<and> set (blogs w) \<subseteq> set (blogs w')"
  using assms
  by (cases "from_blogs_insert sb blog") (auto simp: addBlog_def send_def console_error_def Let_def)

theorem addBlog_includes_created_witness:
  "addBlog accepting new_blog world0 = (Resolved, snd (addBlog accepting new_blog world0))
   \<and> blog_id (hd (blogs (snd (addBlog accepting new_blog world0)))) = ''b3''
   \<and> map blog_id (blogs (snd (addBlog accepting new_blog world0))) = [''b3'', ''b1'', ''b2'']"
proof -
  have r: "addBlog accepting new_blog world0 = (Resolved, snd (addBlog accepting new_blog world0))"
    by (simp add: addBlog_def accepting_def send_def Let_def)
  from addBlog_includes_created [OF r]
  obtain data where d: "from_blogs_insert accepting new_blog = Inr data"
    and l: "blogs (snd (addBlog accepting new_blog world0)) = data # blogs world0"
    by blast
  from d have "data = stored_blog ''b3'' ''2025-07-07T09:00:00Z'' new_blog"
    by (simp add: accepting_def)
  with l r show ?thesis
    by (simp add: stored_blog_def world0_def blog1_def blog2_def)
qed

subsection \<open>Deleting a course\<close>

text \<open>
  C4. If \<open>deleteCourse\<close> on an id resolves, no course with that id is in the courses list
  of the context afterwards, and every course with another id that was in the list before
  is still in it, unchanged and in the same order: the new list is the old one without
  the courses of that id.
\<close>

theorem deleteCourse_removes:
  assumes "deleteCourse sb ident w = (Resolved, w')"
  shows "courses w' = filter (\<lambda>c. course_id c \<noteq> ident) (courses w)
         \<and> (\<forall>c \<in> set (courses w'). course_id c \<noteq> ident)
         \<and> (\<forall>c \<in> set (courses w). course_id c \<noteq> ident \<longrightarrow> c \<in> set (courses w'))"
proof -
  from assms have "courses w' = filter (\<lambda>c. course_id c \<noteq> ident) (courses w)"
    by (cases "from_courses_delete sb ident")
       (auto simp: deleteCourse_def send_def console_error_def Let_def)
  then show ?thesis by simp
qed

theorem deleteCourse_removes_witness:
  "deleteCourse accepting ''c1'' world0 = (Resolved, snd (deleteCourse accepting ''c1'' world0))
   \<and> courses (snd (deleteCourse accepting ''c1'' world0)) = [course2]
   \<and> course2 \<in> set (courses (snd (deleteCourse accepting ''c1'' world0)))
   \<and> course1 \<notin> set (courses (snd (deleteCourse accepting ''c1'' world0)))"
proof -
  have r: "deleteCourse accepting ''c1'' world0
           = (Resolved, snd (deleteCourse accepting ''c1'' world0))"
    by (simp add: deleteCourse_def accepting_def send_def Let_def)
  have ids: "course_id course1 = ''c1''" "course_id course2 = ''c2''"
    by (simp_all add: course1_def course2_def)
  have "courses world0 = [course1, course2]"
    by (simp add: world0_def)
  with deleteCourse_removes [OF r] ids
  have l: "courses (snd (deleteCourse accepting ''c1'' world0)) = [course2]"
    by simp
  have "course1 \<noteq> course2"
    using ids by auto
  with r l show ?thesis by simp
qed

subsection \<open>A failed operation leaves the cached lists alone\<close>

text \<open>
  C8. For each of the six operations of the context, if the backend call returns an
  error then the operation rejects with that error and the blogs and courses lists of
  the context are what they were before the call: the error is rethrown before any
  state update.
\<close>

theorem failed_operation_keeps_lists:
  "(from_blogs_insert sb blog = Inl e \<longrightarrow>
      rejected_unchanged e w (addBlog sb blog w))
   \<and> (from_blogs_update sb (updatedBlog\<lparr>part_blog_updated_at := Some now\<rparr>) ident = Inl e \<longrightarrow>
      rejected_unchanged e w (updateBlog sb now ident updatedBlog w))
   \<and> (from_blogs_delete sb ident = Some e \<longrightarrow>
      rejected_unchanged e w (deleteBlog sb ident w))
   \<and> (from_courses_insert sb course = Inl e \<longrightarrow>
      rejected_unchanged e w (addCourse sb course w))
   \<and> (from_courses_update sb (updatedCourse\<lparr>part_course_updated_at := Some now\<rparr>) ident = Inl e \<longrightarrow>
      rejected_unchanged e w (updateCourse sb now ident updatedCourse w))
   \<and> (from_courses_delete sb ident = Some e \<longrightarrow>
      rejected_unchanged e w (deleteCourse sb ident w))"
  by (simp add: rejected_unchanged_def addBlog_def updateBlog_def deleteBlog_def addCourse_def
        updateCourse_def deleteCourse_def send_def console_error_def Let_def)

theorem failed_operation_keeps_lists_witness:
  "from_blogs_insert (refusing denied) new_blog = Inl denied
   \<and> from_blogs_update (refusing denied)
        (blog_patch\<lparr>part_blog_updated_at := Some ''2025-07-08T12:00:00.000Z''\<rparr>) ''b1'' = Inl denied
   \<and> from_blogs_delete (refusing denied) ''b1'' = Some denied
   \<and> from_courses_insert (refusing denied) new_course = Inl denied
   \<and> from_courses_update (refusing denied)
        (course_patch\<lparr>part_course_updated_at := Some ''2025-07-08T12:00:00.000Z''\<rparr>) ''b1'' = Inl denied
   \<and> from_courses_delete (refusing denied) ''b1'' = Some denied
   \<and> rejected_unchanged denied world0 (addBlog (refusing denied) new_blog world0)
   \<and> rejected_unchanged denied world0
        (updateBlog (refusing denied) ''2025-07-08T12:00:00.000Z'' ''b1'' blog_patch world0)
   \<and> rejected_unchanged denied world0 (deleteBlog (refusing denied) ''b1'' world0)
   \<and> rejected_unchanged denied world0 (addCourse (refusing denied) new_course world0)
   \<and> rejected_unchanged denied world0
        (updateCourse (refusing denied) ''2025-07-08T12:00:00.000Z'' ''b1'' course_patch world0)
   \<and> rejected_unchanged denied world0 (deleteCourse (refusing denied) ''b1'' world0)
   \<and> blogs (snd (deleteBlog (refusing denied) ''b1'' world0)) = [blog1, blog2]
   \<and> courses (snd (deleteBlog (refusing denied) ''b1'' world0)) = [course1, course2]"
proof -
  have h: "from_blogs_insert (refusing denied) new_blog = Inl denied"
    "from_blogs_update (refusing denied)
        (blog_patch\<lparr>part_blog_updated_at := Some ''2025-07-08T12:00:00.000Z''\<rparr>) ''b1'' = Inl denied"
    "from_blogs_delete (refusing denied) ''b1'' = Some denied"
    "from_courses_insert (refusing denied) new_course = Inl denied"
    "from_courses_update (refusing denied)
        (course_patch\<lparr>part_course_updated_at := Some ''2025-07-08T12:00:00.000Z''\<rparr>) ''b1'' = Inl denied"
    "from_courses_delete (refusing denied) ''b1'' = Some denied"
    by (simp_all add: refusing_def)
  note t = failed_operation_keeps_lists [where sb = "refusing denied" and blog = new_blog
      and e = denied and w = world0 and updatedBlog = blog_patch
      and now = "''2025-07-08T12:00:00.000Z''" and ident = "''b1''" and course = new_course
      and updatedCourse = course_patch]
  from t h have k: "rejected_unchanged denied world0 (deleteBlog (refusing denied) ''b1'' world0)"
    by blast
  then have "blogs (snd (deleteBlog (refusing denied) ''b1'' world0)) = [blog1, blog2]"
    "courses (snd (deleteBlog (refusing denied) ''b1'' world0)) = [course1, course2]"
    by (simp_all add: rejected_unchanged_def world0_def)
  with t h show ?thesis by blast
qed

subsection \<open>The filtered list of the blogs page\<close>
















lemma contains_ci_empty: "contains_ci txt []"
  unfolding contains_ci_def by (rule exI [of _ "[]"]) simp





subsection \<open>Admin-only controls\<close>

text \<open>
  C1. In every render where the \<open>isAdmin\<close> flag of \<open>useAuth()\<close> is false, the Add Blog
  button is not among the elements of the blogs page, the edit and delete buttons are
  not among those of a course card, and the Admin Panel link is not among those of the
  profile menu, whatever the rest of the state. Each gate tests that flag alone; with the
  flag computed as the spec describes it (one comparison of the role string), a profile
  whose role is not \<open>admin\<close> has the flag false.
\<close>

theorem non_admin_sees_no_admin_controls:
  "(\<not> isAdmin a \<longrightarrow>
      Button ''Add Blog'' \<notin> set (Blogs a w page)
      \<and> Icon_button ''Edit'' \<notin> set (CourseCard a course)
      \<and> Icon_button ''Trash2'' \<notin> set (CourseCard a course)
      \<and> Link ''/admin'' ''Admin Panel'' \<notin> set (UserProfile a isOpen))
   \<and> (profile_role p \<noteq> ''admin'' \<longrightarrow> \<not> isAdmin (useAuth u (Some p)))"
proof (intro conjI impI)
  assume n: "\<not> isAdmin a"
  have "Button ''Add Blog'' \<notin> set (Blogs_modal page)"
    by (simp add: Blogs_modal_def)
  with n show "Button ''Add Blog'' \<notin> set (Blogs a w page)"
    by (auto simp: Blogs_def)
  from n show "Icon_button ''Edit'' \<notin> set (CourseCard a course)"
    by (simp add: CourseCard_def)
  from n show "Icon_button ''Trash2'' \<notin> set (CourseCard a course)"
    by (simp add: CourseCard_def)
  from n show "Link ''/admin'' ''Admin Panel'' \<notin> set (UserProfile a isOpen)"
    by (simp add: UserProfile_def avatar_def split: option.splits)
next
  assume "profile_role p \<noteq> ''admin''"
  then show "\<not> isAdmin (useAuth u (Some p))"
    by (simp add: useAuth_def)
qed

theorem non_admin_sees_no_admin_controls_witness:
  "profile_role student \<noteq> ''admin''
   \<and> \<not> isAdmin (useAuth (Some ''u1'') (Some student))
   \<and> Button ''Add Blog'' \<notin> set (Blogs (useAuth (Some ''u1'') (Some student)) world0 page_adding)
   \<and> Icon_button ''Edit'' \<notin> set (CourseCard (useAuth (Some ''u1'') (Some student)) course1)
   \<and> Icon_button ''Trash2'' \<notin> set (CourseCard (useAuth (Some ''u1'') (Some student)) course1)
   \<and> Link ''/admin'' ''Admin Panel'' \<notin> set (UserProfile (useAuth (Some ''u1'') (Some student)) True)
   \<and> Button ''Add Blog'' \<in> set (Blogs (useAuth (Some ''u0'') (Some administrator)) world0 page_adding)
   \<and> Icon_button ''Edit'' \<in> set (CourseCard (useAuth (Some ''u0'') (Some administrator)) course1)
   \<and> Icon_button ''Trash2'' \<in> set (CourseCard (useAuth (Some ''u0'') (Some administrator)) course1)
   \<and> Link ''/admin'' ''Admin Panel''
        \<in> set (UserProfile (useAuth (Some ''u0'') (Some administrator)) True)"
proof -
  have r: "profile_role student \<noteq> ''admin''"
    by (simp add: student_def)
  note t = non_admin_sees_no_admin_controls [where p = student and u = "Some ''u1''"
      and a = "useAuth (Some ''u1'') (Some student)" and w = world0 and page = page_adding
      and course = course1 and isOpen = True]
  from t r have n: "\<not> isAdmin (useAuth (Some ''u1'') (Some student))"
    by (elim conjE) simp
  have adm: "isAdmin (useAuth (Some ''u0'') (Some administrator))"
    by (simp add: useAuth_def administrator_def)
  have l: "\<not> loading world0"
    by (simp add: world0_def)
  have "Button ''Add Blog'' \<in> set (Blogs (useAuth (Some ''u0'') (Some administrator)) world0 page_adding)"
    using adm l by (simp add: Blogs_def)
  moreover have "Icon_button ''Edit'' \<in> set (CourseCard (useAuth (Some ''u0'') (Some administrator)) course1)"
    "Icon_button ''Trash2'' \<in> set (CourseCard (useAuth (Some ''u0'') (Some administrator)) course1)"
    using adm by (simp_all add: CourseCard_def)
  moreover have "Link ''/admin'' ''Admin Panel''
        \<in> set (UserProfile (useAuth (Some ''u0'') (Some administrator)) True)"
    using adm by (simp add: UserProfile_def) (simp add: useAuth_def)
  ultimately show ?thesis
    using t r n by simp
qed

subsection \<open>A failed operation is logged and shown once\<close>

lemma failed_context_operation:
  "from_blogs_insert sb blog = Inl e \<Longrightarrow>
     addBlog sb blog w
       = (Rejected e, console_error ''Error adding blog:'' e (send (Insert_blogs blog) w))"
  "from_blogs_update sb (updatedBlog\<lparr>part_blog_updated_at := Some now\<rparr>) ident = Inl e \<Longrightarrow>
     updateBlog sb now ident updatedBlog w
       = (Rejected e, console_error ''Error updating blog:'' e
            (send (Update_blogs (updatedBlog\<lparr>part_blog_updated_at := Some now\<rparr>) ident) w))"
  "from_blogs_delete sb ident = Some e \<Longrightarrow>
     deleteBlog sb ident w
       = (Rejected e, console_error ''Error deleting blog:'' e (send (Delete_blogs ident) w))"
  "from_courses_insert sb course = Inl e \<Longrightarrow>
     addCourse sb course w
       = (Rejected e, console_error ''Error adding course:'' e (send (Insert_courses course) w))"
  "from_courses_update sb (updatedCourse\<lparr>part_course_updated_at := Some now\<rparr>) ident = Inl e \<Longrightarrow>
     updateCourse sb now ident updatedCourse w
       = (Rejected e, console_error ''Error updating course:'' e
            (send (Update_courses (updatedCourse\<lparr>part_course_updated_at := Some now\<rparr>) ident) w))"
  "from_courses_delete sb ident = Some e \<Longrightarrow>
     deleteCourse sb ident w
       = (Rejected e, console_error ''Error deleting course:'' e (send (Delete_courses ident) w))"
  by (simp_all add: addBlog_def updateBlog_def deleteBlog_def addCourse_def updateCourse_def
        deleteCourse_def Let_def)

lemma surfaced_onceI:
  "surfaced_once w (alert msg (console_error l2 e (console_error l1 e (send r w))))
     r [(l1, e), (l2, e)] msg"
  by (simp add: surfaced_once_def alert_def console_error_def send_def)

text \<open>
  C7. For every add, update or delete of a blog or a course whose backend call returns
  an error: the context logs the error and rejects, the call site catches the rejection,
  logs the error again and shows one message that does not depend on the error, and one
  request only has been sent (no retry). The call sites of the blog operations are
  \<open>handleSubmit\<close> and \<open>handleDelete\<close> of the blogs page; the call site of the course
  operations follows the spec.
\<close>

theorem backend_error_logged_and_surfaced:
  "(editingBlog page = None \<and> from_blogs_insert sb (blogData (formData page)) = Inl e \<longrightarrow>
      fst (handleSubmit sb now (page, w)) = page
      \<and> surfaced_once w (snd (handleSubmit sb now (page, w)))
           (Insert_blogs (blogData (formData page)))
           [(''Error adding blog:'', e), (''Error saving blog:'', e)]
           ''Error saving blog. Please try again.'')
   \<and> (editingBlog page = Some b
       \<and> from_blogs_update sb
            ((as_Partial (blogData (formData page)))\<lparr>part_blog_updated_at := Some now\<rparr>)
            (blog_id b) = Inl e \<longrightarrow>
      fst (handleSubmit sb now (page, w)) = page
      \<and> surfaced_once w (snd (handleSubmit sb now (page, w)))
           (Update_blogs
              ((as_Partial (blogData (formData page)))\<lparr>part_blog_updated_at := Some now\<rparr>)
              (blog_id b))
           [(''Error updating blog:'', e), (''Error saving blog:'', e)]
           ''Error saving blog. Please try again.'')
   \<and> (from_blogs_delete sb ident = Some e \<longrightarrow>
      surfaced_once w (handleDelete sb True ident w) (Delete_blogs ident)
        [(''Error deleting blog:'', e), (''Error deleting blog:'', e)]
        ''Error deleting blog. Please try again.'')
   \<and> (from_courses_insert sb course = Inl e \<longrightarrow>
      surfaced_once w (Courses_call_site label msg (addCourse sb course) w)
        (Insert_courses course) [(''Error adding course:'', e), (label, e)] msg)
   \<and> (from_courses_update sb (updatedCourse\<lparr>part_course_updated_at := Some now\<rparr>) ident = Inl e \<longrightarrow>
      surfaced_once w (Courses_call_site label msg (updateCourse sb now ident updatedCourse) w)
        (Update_courses (updatedCourse\<lparr>part_course_updated_at := Some now\<rparr>) ident)
        [(''Error updating course:'', e), (label, e)] msg)
   \<and> (from_courses_delete sb ident = Some e \<longrightarrow>
      surfaced_once w (Courses_call_site label msg (deleteCourse sb ident) w)
        (Delete_courses ident) [(''Error deleting course:'', e), (label, e)] msg)"
proof (intro conjI impI)
  assume "editingBlog page = None \<and> from_blogs_insert sb (blogData (formData page)) = Inl e"
  then have h: "handleSubmit sb now (page, w)
      = (page, alert ''Error saving blog. Please try again.''
           (console_error ''Error saving blog:'' e
             (console_error ''Error adding blog:'' e
               (send (Insert_blogs (blogData (formData page))) w))))"
    by (simp add: handleSubmit_def failed_context_operation Let_def)
  show "fst (handleSubmit sb now (page, w)) = page"
    by (simp add: h)
  show "surfaced_once w (snd (handleSubmit sb now (page, w)))
           (Insert_blogs (blogData (formData page)))
           [(''Error adding blog:'', e), (''Error saving blog:'', e)]
           ''Error saving blog. Please try again.''"
    by (simp only: h snd_conv surfaced_onceI)
next
  assume "editingBlog page = Some b
       \<and> from_blogs_update sb
            ((as_Partial (blogData (formData page)))\<lparr>part_blog_updated_at := Some now\<rparr>)
            (blog_id b) = Inl e"
  then have h: "handleSubmit sb now (page, w)
      = (page, alert ''Error saving blog. Please try again.''
           (console_error ''Error saving blog:'' e
             (console_error ''Error updating blog:'' e
               (send (Update_blogs
                  ((as_Partial (blogData (formData page)))\<lparr>part_blog_updated_at := Some now\<rparr>)
                  (blog_id b)) w))))"
    by (simp add: handleSubmit_def failed_context_operation Let_def)
  show "fst (handleSubmit sb now (page, w)) = page"
    by (simp add: h)
  show "surfaced_once w (snd (handleSubmit sb now (page, w)))
           (Update_blogs
              ((as_Partial (blogData (formData page)))\<lparr>part_blog_updated_at := Some now\<rparr>)
              (blog_id b))
           [(''Error updating blog:'', e), (''Error saving blog:'', e)]
           ''Error saving blog. Please try again.''"
    by (simp only: h snd_conv surfaced_onceI)
next
  assume "from_blogs_delete sb ident = Some e"
  then have "handleDelete sb True ident w
      = alert ''Error deleting blog. Please try again.''
           (console_error ''Error deleting blog:'' e
             (console_error ''Error deleting blog:'' e (send (Delete_blogs ident) w)))"
    by (simp add: handleDelete_def failed_context_operation Let_def)
  then show "surfaced_once w (handleDelete sb True ident w) (Delete_blogs ident)
        [(''Error deleting blog:'', e), (''Error deleting blog:'', e)]
        ''Error deleting blog. Please try again.''"
    by (simp only: surfaced_onceI)
next
  assume "from_courses_insert sb course = Inl e"
  then have "Courses_call_site label msg (addCourse sb course) w
      = alert msg (console_error label e
          (console_error ''Error adding course:'' e (send (Insert_courses course) w)))"
    by (simp add: Courses_call_site_def failed_context_operation Let_def)
  then show "surfaced_once w (Courses_call_site label msg (addCourse sb course) w)
        (Insert_courses course) [(''Error adding course:'', e), (label, e)] msg"
    by (simp only: surfaced_onceI)
next
  assume "from_courses_update sb (updatedCourse\<lparr>part_course_updated_at := Some now\<rparr>) ident = Inl e"
  then have "Courses_call_site label msg (updateCourse sb now ident updatedCourse) w
      = alert msg (console_error label e
          (console_error ''Error updating course:'' e
            (send (Update_courses (updatedCourse\<lparr>part_course_updated_at := Some now\<rparr>) ident) w)))"
    by (simp add: Courses_call_site_def failed_context_operation Let_def)
  then show "surfaced_once w (Courses_call_site label msg (updateCourse sb now ident updatedCourse) w)
        (Update_courses (updatedCourse\<lparr>part_course_updated_at := Some now\<rparr>) ident)
        [(''Error updating course:'', e), (label, e)] msg"
    by (simp only: surfaced_onceI)
next
  assume "from_courses_delete sb ident = Some e"
  then have "Courses_call_site label msg (deleteCourse sb ident) w
      = alert msg (console_error label e
          (console_error ''Error deleting course:'' e (send (Delete_courses ident) w)))"
    by (simp add: Courses_call_site_def failed_context_operation Let_def)
  then show "surfaced_once w (Courses_call_site label msg (deleteCourse sb ident) w)
        (Delete_courses ident) [(''Error deleting course:'', e), (label, e)] msg"
    by (simp only: surfaced_onceI)
qed

theorem backend_error_logged_and_surfaced_witness:
  "editingBlog page_adding = None
   \<and> from_blogs_insert (refusing denied) (blogData (formData page_adding)) = Inl denied
   \<and> editingBlog page_editing = Some blog1
   \<and> from_blogs_update (refusing denied)
        ((as_Partial (blogData (formData page_editing)))
           \<lparr>part_blog_updated_at := Some ''2025-07-08T12:00:00.000Z''\<rparr>) (blog_id blog1) = Inl denied
   \<and> from_blogs_delete (refusing denied) ''b2'' = Some denied
   \<and> from_courses_insert (refusing denied) new_course = Inl denied
   \<and> from_courses_update (refusing denied)
        (course_patch\<lparr>part_course_updated_at := Some ''2025-07-08T12:00:00.000Z''\<rparr>) ''b2'' = Inl denied
   \<and> from_courses_delete (refusing denied) ''b2'' = Some denied
   \<and> fst (handleSubmit (refusing denied) ''2025-07-08T12:00:00.000Z'' (page_adding, world0)) = page_adding
   \<and> alerts (snd (handleSubmit (refusing denied) ''2025-07-08T12:00:00.000Z'' (page_adding, world0)))
       = [''Error saving blog. Please try again.'']
   \<and> console (snd (handleSubmit (refusing denied) ''2025-07-08T12:00:00.000Z'' (page_adding, world0)))
       = [(''Error adding blog:'', denied), (''Error saving blog:'', denied)]
   \<and> network (snd (handleSubmit (refusing denied) ''2025-07-08T12:00:00.000Z'' (page_adding, world0)))
       = [Insert_blogs (blogData (formData page_adding))]
   \<and> fst (handleSubmit (refusing denied) ''2025-07-08T12:00:00.000Z'' (page_editing, world0)) = page_editing
   \<and> alerts (snd (handleSubmit (refusing denied) ''2025-07-08T12:00:00.000Z'' (page_editing, world0)))
       = [''Error saving blog. Please try again.'']
   \<and> length (network (snd (handleSubmit (refusing denied) ''2025-07-08T12:00:00.000Z''
                (page_editing, world0)))) = 1
   \<and> alerts (handleDelete (refusing denied) True ''b2'' world0)
       = [''Error deleting blog. Please try again.'']
   \<and> network (handleDelete (refusing denied) True ''b2'' world0) = [Delete_blogs ''b2'']
   \<and> alerts (Courses_call_site ''Error saving course:'' ''Error saving course. Please try again.''
         (addCourse (refusing denied) new_course) world0)
       = [''Error saving course. Please try again.'']
   \<and> network (Courses_call_site ''Error saving course:'' ''Error saving course. Please try again.''
         (updateCourse (refusing denied) ''2025-07-08T12:00:00.000Z'' ''b2'' course_patch) world0)
       = [Update_courses (course_patch\<lparr>part_course_updated_at := Some ''2025-07-08T12:00:00.000Z''\<rparr>) ''b2'']
   \<and> console (Courses_call_site ''Error saving course:'' ''Error saving course. Please try again.''
         (deleteCourse (refusing denied) ''b2'') world0)
       = [(''Error deleting course:'', denied), (''Error saving course:'', denied)]"
proof -
  have pa: "editingBlog page_adding = None" and pe: "editingBlog page_editing = Some blog1"
    by (simp_all add: page_adding_def page_editing_def page0_def)
  have h: "from_blogs_insert (refusing denied) (blogData (formData page_adding)) = Inl denied"
    "from_blogs_update (refusing denied)
        ((as_Partial (blogData (formData page_editing)))
           \<lparr>part_blog_updated_at := Some ''2025-07-08T12:00:00.000Z''\<rparr>) (blog_id blog1) = Inl denied"
    "from_blogs_delete (refusing denied) ''b2'' = Some denied"
    "from_courses_insert (refusing denied) new_course = Inl denied"
    "from_courses_update (refusing denied)
        (course_patch\<lparr>part_course_updated_at := Some ''2025-07-08T12:00:00.000Z''\<rparr>) ''b2'' = Inl denied"
    "from_courses_delete (refusing denied) ''b2'' = Some denied"
    by (simp_all add: refusing_def)
  have w0: "network world0 = []" "console world0 = []" "alerts world0 = []"
    by (simp_all add: world0_def)
  note add = backend_error_logged_and_surfaced [where page = page_adding
      and sb = "refusing denied" and e = denied and now = "''2025-07-08T12:00:00.000Z''"
      and w = world0 and ident = "''b2''" and course = new_course
      and updatedCourse = course_patch and label = "''Error saving course:''"
      and msg = "''Error saving course. Please try again.''"]
  note edit = backend_error_logged_and_surfaced [where page = page_editing and b = blog1
      and sb = "refusing denied" and e = denied and now = "''2025-07-08T12:00:00.000Z''"
      and w = world0]
  from add pa h have a: "fst (handleSubmit (refusing denied) ''2025-07-08T12:00:00.000Z''
        (page_adding, world0)) = page_adding
      \<and> surfaced_once world0
          (snd (handleSubmit (refusing denied) ''2025-07-08T12:00:00.000Z'' (page_adding, world0)))
          (Insert_blogs (blogData (formData page_adding)))
          [(''Error adding blog:'', denied), (''Error saving blog:'', denied)]
          ''Error saving blog. Please try again.''"
    by blast
  from edit pe h have b: "fst (handleSubmit (refusing denied) ''2025-07-08T12:00:00.000Z''
        (page_editing, world0)) = page_editing
      \<and> surfaced_once world0
          (snd (handleSubmit (refusing denied) ''2025-07-08T12:00:00.000Z'' (page_editing, world0)))
          (Update_blogs ((as_Partial (blogData (formData page_editing)))
              \<lparr>part_blog_updated_at := Some ''2025-07-08T12:00:00.000Z''\<rparr>) (blog_id blog1))
          [(''Error updating blog:'', denied), (''Error saving blog:'', denied)]
          ''Error saving blog. Please try again.''"
    by blast
  from add h have c: "surfaced_once world0 (handleDelete (refusing denied) True ''b2'' world0)
        (Delete_blogs ''b2'') [(''Error deleting blog:'', denied), (''Error deleting blog:'', denied)]
        ''Error deleting blog. Please try again.''"
    by blast
  from add h have d: "surfaced_once world0
        (Courses_call_site ''Error saving course:'' ''Error saving course. Please try again.''
           (addCourse (refusing denied) new_course) world0)
        (Insert_courses new_course)
        [(''Error adding course:'', denied), (''Error saving course:'', denied)]
        ''Error saving course. Please try again.''"
    by blast
  from add h have e: "surfaced_once world0
        (Courses_call_site ''Error saving course:'' ''Error saving course. Please try again.''
           (updateCourse (refusing denied) ''2025-07-08T12:00:00.000Z'' ''b2'' course_patch) world0)
        (Update_courses (course_patch\<lparr>part_course_updated_at := Some ''2025-07-08T12:00:00.000Z''\<rparr>) ''b2'')
        [(''Error updating course:'', denied), (''Error saving course:'', denied)]
        ''Error saving course. Please try again.''"
    by blast
  from add h have f: "surfaced_once world0
        (Courses_call_site ''Error saving course:'' ''Error saving course. Please try again.''
           (deleteCourse (refusing denied) ''b2'') world0)
        (Delete_courses ''b2'')
        [(''Error deleting course:'', denied), (''Error saving course:'', denied)]
        ''Error saving course. Please try again.''"
    by blast
  from a b c d e f pa pe h show ?thesis
    by (simp add: surfaced_once_def w0)
qed

subsection \<open>The admin secret key of the signup page\<close>

text \<open>
  C9, as stated, fails: a submission with role \<open>admin\<close> and a wrong key whose two
  passwords differ ends with the error of the first check, not with
  \<open>Invalid admin secret key\<close>.
\<close>

theorem signup_wrong_key_other_error:
  "role (signup_formData signup_mismatch) = admin_role
   \<and> adminSecretKey signup_mismatch \<noteq> ADMIN_SECRET
   \<and> signup_error (fst (Signup_handleSubmit signing_up signup_mismatch))
       = Some ''Passwords do not match''
   \<and> signup_error (fst (Signup_handleSubmit signing_up signup_mismatch))
       \<noteq> Some ''Invalid admin secret key''"
  by (simp add: Signup_handleSubmit_def signup_mismatch_def signup0_def ADMIN_SECRET_def Let_def)

text \<open>
  C9, amended. For every signup submission with role \<open>admin\<close> and an admin secret key
  other than \<open>robostaan_admin_2024\<close>, the handler returns without any effect on the
  outside, so without a sign-up or profile-creation request, and with an error set: the
  error is \<open>Passwords do not match\<close> when the two passwords differ, otherwise
  \<open>Password must be at least 6 characters long\<close> when the password is shorter than 6,
  and \<open>Invalid admin secret key\<close> otherwise (the two password checks come first). A
  sign-up or profile-creation request is sent only when the key matches or the role is
  not \<open>admin\<close>.
\<close>

theorem signup_admin_key_gate:
  "(role (signup_formData st) = admin_role \<and> adminSecretKey st \<noteq> ADMIN_SECRET \<longrightarrow>
      snd (Signup_handleSubmit sb st) = []
      \<and> signup_success (fst (Signup_handleSubmit sb st)) = None
      \<and> signup_error (fst (Signup_handleSubmit sb st))
          = Some (if password (signup_formData st) \<noteq> confirmPassword (signup_formData st)
                  then ''Passwords do not match''
                  else if length (password (signup_formData st)) < 6
                  then ''Password must be at least 6 characters long''
                  else ''Invalid admin secret key'')
      \<and> (password (signup_formData st) = confirmPassword (signup_formData st)
          \<and> 6 \<le> length (password (signup_formData st)) \<longrightarrow>
          signup_error (fst (Signup_handleSubmit sb st)) = Some ''Invalid admin secret key''))
   \<and> (SignUp_request c \<in> set (snd (Signup_handleSubmit sb st))
       \<or> Profile_insert_request r \<in> set (snd (Signup_handleSubmit sb st)) \<longrightarrow>
      role (signup_formData st) \<noteq> admin_role \<or> adminSecretKey st = ADMIN_SECRET)"
  by (auto simp: Signup_handleSubmit_def Let_def)

theorem signup_admin_key_gate_witness:
  "role (signup_formData signup0) = admin_role \<and> adminSecretKey signup0 \<noteq> ADMIN_SECRET
   \<and> password (signup_formData signup0) = confirmPassword (signup_formData signup0)
   \<and> 6 \<le> length (password (signup_formData signup0))
   \<and> snd (Signup_handleSubmit signing_up signup0) = []
   \<and> signup_error (fst (Signup_handleSubmit signing_up signup0)) = Some ''Invalid admin secret key''
   \<and> role (signup_formData signup_short) = admin_role \<and> adminSecretKey signup_short \<noteq> ADMIN_SECRET
   \<and> password (signup_formData signup_short) = confirmPassword (signup_formData signup_short)
   \<and> length (password (signup_formData signup_short)) = 3
   \<and> snd (Signup_handleSubmit signing_up signup_short) = []
   \<and> signup_error (fst (Signup_handleSubmit signing_up signup_short))
       = Some ''Password must be at least 6 characters long''
   \<and> role (signup_formData signup_mismatch) = admin_role
   \<and> adminSecretKey signup_mismatch \<noteq> ADMIN_SECRET
   \<and> password (signup_formData signup_mismatch) \<noteq> confirmPassword (signup_formData signup_mismatch)
   \<and> snd (Signup_handleSubmit signing_up signup_mismatch) = []
   \<and> signup_error (fst (Signup_handleSubmit signing_up signup_mismatch))
       = Some ''Passwords do not match''
   \<and> SignUp_request \<lparr>signUp_email = ''eve@example.org'', signUp_password = ''secret1'',
        signUp_full_name = ''Eve'', signUp_role = admin_role\<rparr>
        \<in> set (snd (Signup_handleSubmit signing_up signup_keyed))
   \<and> adminSecretKey signup_keyed = ADMIN_SECRET"
proof -
  have h: "role (signup_formData signup0) = admin_role" "adminSecretKey signup0 \<noteq> ADMIN_SECRET"
    "password (signup_formData signup0) = confirmPassword (signup_formData signup0)"
    "6 \<le> length (password (signup_formData signup0))"
    by (simp_all add: signup0_def ADMIN_SECRET_def)
  have hs: "role (signup_formData signup_short) = admin_role"
    "adminSecretKey signup_short \<noteq> ADMIN_SECRET"
    "password (signup_formData signup_short) = confirmPassword (signup_formData signup_short)"
    "length (password (signup_formData signup_short)) = 3"
    by (simp_all add: signup_short_def signup0_def ADMIN_SECRET_def)
  have hm: "role (signup_formData signup_mismatch) = admin_role"
    "adminSecretKey signup_mismatch \<noteq> ADMIN_SECRET"
    "password (signup_formData signup_mismatch) \<noteq> confirmPassword (signup_formData signup_mismatch)"
    by (simp_all add: signup_mismatch_def signup0_def ADMIN_SECRET_def)
  have sent: "SignUp_request \<lparr>signUp_email = ''eve@example.org'', signUp_password = ''secret1'',
        signUp_full_name = ''Eve'', signUp_role = admin_role\<rparr>
        \<in> set (snd (Signup_handleSubmit signing_up signup_keyed))"
    by (simp add: Signup_handleSubmit_def signup_keyed_def signup0_def signing_up_def
          ADMIN_SECRET_def Let_def)
  have k: "role (signup_formData signup_keyed) = admin_role"
    by (simp add: signup_keyed_def signup0_def)
  note g0 = signup_admin_key_gate [where st = signup0 and sb = signing_up, THEN conjunct1,
      THEN mp, OF conjI, OF h(1) h(2)]
  note gs = signup_admin_key_gate [where st = signup_short and sb = signing_up, THEN conjunct1,
      THEN mp, OF conjI, OF hs(1) hs(2)]
  note gm = signup_admin_key_gate [where st = signup_mismatch and sb = signing_up,
      THEN conjunct1, THEN mp, OF conjI, OF hm(1) hm(2)]
  from g0 h have r0: "snd (Signup_handleSubmit signing_up signup0) = []"
    "signup_error (fst (Signup_handleSubmit signing_up signup0)) = Some ''Invalid admin secret key''"
    by simp_all
  from gs hs have rs: "snd (Signup_handleSubmit signing_up signup_short) = []"
    "signup_error (fst (Signup_handleSubmit signing_up signup_short))
       = Some ''Password must be at least 6 characters long''"
    by simp_all
  from gm hm have rm: "snd (Signup_handleSubmit signing_up signup_mismatch) = []"
    "signup_error (fst (Signup_handleSubmit signing_up signup_mismatch))
       = Some ''Passwords do not match''"
    by simp_all
  from signup_admin_key_gate [where st = signup_keyed and sb = signing_up] sent k
  have kk: "adminSecretKey signup_keyed = ADMIN_SECRET"
    by blast
  from h hs hm r0 rs rm sent kk show ?thesis
    by simp
qed

subsection \<open>Progress of an enrollment\<close>

lemma enrollment_row_ok_in_range:
  "enrollment_row_error r = None \<Longrightarrow> progress_in_range r"
  by (auto simp: enrollment_row_error_def progress_in_range_def check_passes_def sql_and_def
        sql_ge_def sql_le_def split: if_splits option.splits)

lemma out_of_range_row_error:
  "progress r = Some p \<Longrightarrow> p < 0 \<or> 100 < p \<Longrightarrow> enrollment_row_error r \<noteq> None"
  by (auto simp: enrollment_row_error_def check_passes_def sql_and_def sql_ge_def sql_le_def)

lemma enrollments_written_ok:
  assumes "enrollments_error db written rows = None" and "r \<in> set written"
  shows "enrollment_row_error r = None"
proof (cases "List.find (\<lambda>r. enrollment_row_error r \<noteq> None) written")
  case None
  with assms(2) show ?thesis
    by (auto simp: find_None_iff)
next
  case (Some bad)
  then have "enrollment_row_error bad \<noteq> None"
    by (auto simp: find_Some_iff)
  with assms(1) Some show ?thesis
    by (simp add: enrollments_error_def)
qed

lemma enrollments_written_bad:
  assumes "r \<in> set written" and "enrollment_row_error r \<noteq> None"
  shows "enrollments_error db written rows \<noteq> None"
proof
  assume "enrollments_error db written rows = None"
  from enrollments_written_ok [OF this assms(1)] assms(2) show False
    by simp
qed

lemma execute_enrollments_in_range:
  assumes inv: "\<forall>r \<in> set (course_enrollments db). progress_in_range r"
    and ex: "execute_enrollments fresh now stmt db = Inr db'"
  shows "\<forall>r \<in> set (course_enrollments db'). progress_in_range r"
proof (cases stmt)
  case (INSERT assign)
  let ?r = "assign (enrollment_defaults fresh now)"
  from ex INSERT have ok: "enrollments_error db [?r] (course_enrollments db @ [?r]) = None"
    and rows: "course_enrollments db' = course_enrollments db @ [?r]"
    by (auto simp: execute_enrollments_def Let_def split: option.splits)
  from enrollments_written_ok [OF ok] have "progress_in_range ?r"
    by (simp add: enrollment_row_ok_in_range)
  with inv rows show ?thesis
    by auto
next
  case (UPDATE assign cond)
  let ?written = "map assign (filter cond (course_enrollments db))"
  let ?rows = "map (\<lambda>r. if cond r then assign r else r) (course_enrollments db)"
  from ex UPDATE have ok: "enrollments_error db ?written ?rows = None"
    and rows: "course_enrollments db' = ?rows"
    by (auto simp: execute_enrollments_def Let_def split: option.splits)
  have "progress_in_range r" if "r \<in> set ?rows" for r
  proof -
    from that obtain old where o: "old \<in> set (course_enrollments db)"
      and r: "r = (if cond old then assign old else old)"
      by auto
    show ?thesis
    proof (cases "cond old")
      case True
      with o r have "r \<in> set ?written"
        by auto
      from enrollments_written_ok [OF ok this] show ?thesis
        by (rule enrollment_row_ok_in_range)
    next
      case False
      with o r inv show ?thesis
        by simp
    qed
  qed
  with rows show ?thesis
    by simp
next
  case (DELETE cond)
  with ex have "course_enrollments db' = filter (\<lambda>r. \<not> cond r) (course_enrollments db)"
    by (auto simp: execute_enrollments_def)
  with inv show ?thesis
    by simp
qed

lemma run_enrollments_in_range:
  "\<forall>r \<in> set (course_enrollments db). progress_in_range r \<Longrightarrow>
   \<forall>r \<in> set (course_enrollments (run_enrollments session db)). progress_in_range r"
proof (induction session arbitrary: db)
  case Nil
  then show ?case by simp
next
  case (Cons step session)
  obtain fresh now stmt where step: "step = (fresh, now, stmt)"
    by (cases step)
  show ?case
  proof (cases "execute_enrollments fresh now stmt db")
    case (Inl e)
    with step Cons show ?thesis
      by simp
  next
    case (Inr db')
    from execute_enrollments_in_range [OF Cons.prems Inr] Cons.IH [of db'] Inr step
    show ?thesis
      by simp
  qed
qed

text \<open>
  C2, as stated, fails: a write of progress 150 is not clamped to 100. The statement is
  refused by the \<open>CHECK\<close> constraint and the table stays as it was.
\<close>

theorem progress_150_rejected_not_clamped:
  "execute_enrollments ''e1'' ''2025-07-08T12:00:00Z'' (enrol ''u1'' ''c1'' 150) db0
     = Inl (check_violation ''course_enrollments_progress_check'')
   \<and> course_enrollments
        (run_enrollments [(''e1'', ''2025-07-08T12:00:00Z'', enrol ''u1'' ''c1'' 150)] db0) = []"
  by (simp add: execute_enrollments_def enrol_def enrollments_error_def enrollment_row_error_def
        enrollment_defaults_def check_passes_def sql_and_def sql_ge_def sql_le_def db0_def)

text \<open>
  C2, amended. Every row of \<open>course_enrollments\<close> has a progress that is NULL or lies in
  [0,100], after any session of inserts, updates and deletes on a table of which this was
  true (the empty table the migration creates is one): a statement that would store a
  progress below 0 or above 100 is rejected with an error and stores nothing, it is not
  clamped.
\<close>

theorem progress_stays_in_range:
  "((\<forall>r \<in> set (course_enrollments db). progress_in_range r) \<longrightarrow>
      (\<forall>r \<in> set (course_enrollments (run_enrollments session db)). progress_in_range r))
   \<and> (progress (assign (enrollment_defaults fresh now)) = Some p \<and> (p < 0 \<or> 100 < p) \<longrightarrow>
        (\<exists>e. execute_enrollments fresh now (INSERT assign) db = Inl e)
        \<and> run_enrollments [(fresh, now, INSERT assign)] db = db)
   \<and> (old \<in> set (course_enrollments db) \<and> cond old \<and> progress (assign old) = Some p
       \<and> (p < 0 \<or> 100 < p) \<longrightarrow>
        (\<exists>e. execute_enrollments fresh now (UPDATE assign cond) db = Inl e)
        \<and> run_enrollments [(fresh, now, UPDATE assign cond)] db = db)"
proof (intro conjI impI)
  assume "\<forall>r \<in> set (course_enrollments db). progress_in_range r"
  then show "\<forall>r \<in> set (course_enrollments (run_enrollments session db)). progress_in_range r"
    by (rule run_enrollments_in_range)
next
  let ?r = "assign (enrollment_defaults fresh now)"
  assume "progress ?r = Some p \<and> (p < 0 \<or> 100 < p)"
  then have "enrollment_row_error ?r \<noteq> None"
    using out_of_range_row_error by blast
  then have "enrollments_error db [?r] (course_enrollments db @ [?r]) \<noteq> None"
    by (intro enrollments_written_bad [of ?r]) simp_all
  then obtain e where e: "execute_enrollments fresh now (INSERT assign) db = Inl e"
    by (auto simp: execute_enrollments_def Let_def)
  then show "\<exists>e. execute_enrollments fresh now (INSERT assign) db = Inl e"
    by blast
  from e show "run_enrollments [(fresh, now, INSERT assign)] db = db"
    by simp
next
  let ?written = "map assign (filter cond (course_enrollments db))"
  let ?rows = "map (\<lambda>r. if cond r then assign r else r) (course_enrollments db)"
  assume a: "old \<in> set (course_enrollments db) \<and> cond old \<and> progress (assign old) = Some p
       \<and> (p < 0 \<or> 100 < p)"
  then have "enrollment_row_error (assign old) \<noteq> None"
    using out_of_range_row_error by blast
  moreover from a have "assign old \<in> set ?written"
    by auto
  ultimately have "enrollments_error db ?written ?rows \<noteq> None"
    by (intro enrollments_written_bad [of "assign old"])
  then obtain e where e: "execute_enrollments fresh now (UPDATE assign cond) db = Inl e"
    by (auto simp: execute_enrollments_def Let_def)
  then show "\<exists>e. execute_enrollments fresh now (UPDATE assign cond) db = Inl e"
    by blast
  from e show "run_enrollments [(fresh, now, UPDATE assign cond)] db = db"
    by simp
qed

lemma run_session0:
  "course_enrollments (run_enrollments session0 db0) = [enrolled]"
  by (simp add: session0_def db0_def enrol_def set_progress_def enrolled_def
        execute_enrollments_def enrollments_error_def enrollment_row_error_def
        enrollment_defaults_def enrollment_pair_def references_def check_passes_def sql_and_def
        sql_ge_def sql_le_def course1_def course2_def Let_def)

theorem progress_stays_in_range_witness:
  "course_enrollments db0 = []
   \<and> course_enrollments (run_enrollments session0 db0) = [enrolled]
   \<and> progress_in_range enrolled
   \<and> progress enrolled = Some 100
   \<and> execute_enrollments ''e2'' ''2025-07-08T12:01:00Z'' (enrol ''u2'' ''c1'' 150) db0
       = Inl (check_violation ''course_enrollments_progress_check'')
   \<and> run_enrollments [(''e2'', ''2025-07-08T12:01:00Z'', enrol ''u2'' ''c1'' 150)] db0 = db0
   \<and> execute_enrollments ''e4'' ''2025-07-08T12:03:00Z'' (set_progress ''u1'' (- 5))
        (db0\<lparr>course_enrollments := [enrolled]\<rparr>)
       = Inl (check_violation ''course_enrollments_progress_check'')
   \<and> run_enrollments [(''e4'', ''2025-07-08T12:03:00Z'', set_progress ''u1'' (- 5))]
        (db0\<lparr>course_enrollments := [enrolled]\<rparr>) = db0\<lparr>course_enrollments := [enrolled]\<rparr>"
proof -
  have empty: "course_enrollments db0 = []"
    by (simp add: db0_def)
  note inv = progress_stays_in_range [where db = db0 and session = session0,
      THEN conjunct1]
  with empty have "\<forall>r \<in> set (course_enrollments (run_enrollments session0 db0)). progress_in_range r"
    by simp
  then have in_range: "progress_in_range enrolled"
    by (simp add: run_session0)
  have p: "progress enrolled = Some 100"
    by (simp add: enrolled_def)
  note ins = progress_stays_in_range [where db = db0 and fresh = "''e2''"
      and now = "''2025-07-08T12:01:00Z''" and p = 150
      and assign = "\<lambda>r. r\<lparr>enrollment_user_id := Some ''u2'', enrollment_course_id := Some ''c1'',
         progress := Some 150\<rparr>",
      THEN conjunct2, THEN conjunct1, folded enrol_def]
  have "run_enrollments [(''e2'', ''2025-07-08T12:01:00Z'', enrol ''u2'' ''c1'' 150)] db0 = db0"
    using ins by (simp add: enrollment_defaults_def)
  moreover have "execute_enrollments ''e2'' ''2025-07-08T12:01:00Z'' (enrol ''u2'' ''c1'' 150) db0
       = Inl (check_violation ''course_enrollments_progress_check'')"
    by (simp add: execute_enrollments_def enrol_def enrollments_error_def enrollment_row_error_def
        enrollment_defaults_def check_passes_def sql_and_def sql_ge_def sql_le_def db0_def)
  moreover
  note upd = progress_stays_in_range [where db = "db0\<lparr>course_enrollments := [enrolled]\<rparr>"
      and fresh = "''e4''" and now = "''2025-07-08T12:03:00Z''" and p = "- 5" and old = enrolled
      and assign = "\<lambda>r. r\<lparr>progress := Some (- 5)\<rparr>"
      and cond = "\<lambda>r. enrollment_user_id r = Some ''u1''",
      THEN conjunct2, THEN conjunct2, folded set_progress_def]
  have "run_enrollments [(''e4'', ''2025-07-08T12:03:00Z'', set_progress ''u1'' (- 5))]
        (db0\<lparr>course_enrollments := [enrolled]\<rparr>) = db0\<lparr>course_enrollments := [enrolled]\<rparr>"
    using upd by (simp add: enrolled_def)
  moreover have "execute_enrollments ''e4'' ''2025-07-08T12:03:00Z'' (set_progress ''u1'' (- 5))
        (db0\<lparr>course_enrollments := [enrolled]\<rparr>)
       = Inl (check_violation ''course_enrollments_progress_check'')"
    by (simp add: execute_enrollments_def set_progress_def enrollments_error_def
        enrollment_row_error_def enrolled_def check_passes_def sql_and_def sql_ge_def sql_le_def)
  ultimately show ?thesis
    using empty in_range p by (simp add: run_session0)
qed

subsection \<open>The target of a comment\<close>

lemma comment_row_ok_one_target:
  "comment_row_error r = None \<longleftrightarrow>
     comment_id r \<noteq> None \<and> comment_content r \<noteq> None \<and> one_target r"
  by (auto simp: comment_row_error_def one_target_def check_passes_def sql_and_def sql_or_def
        is_null_def is_not_null_def)

lemma comments_written_ok:
  assumes "comments_error db written rows = None" and "r \<in> set written"
  shows "comment_row_error r = None"
proof (cases "List.find (\<lambda>r. comment_row_error r \<noteq> None) written")
  case None
  with assms(2) show ?thesis
    by (auto simp: find_None_iff)
next
  case (Some bad)
  then have "comment_row_error bad \<noteq> None"
    by (auto simp: find_Some_iff)
  with assms(1) Some show ?thesis
    by (simp add: comments_error_def)
qed

lemma comments_written_bad:
  assumes "r \<in> set written" and "comment_row_error r \<noteq> None"
  shows "comments_error db written rows \<noteq> None"
proof
  assume "comments_error db written rows = None"
  from comments_written_ok [OF this assms(1)] assms(2) show False
    by simp
qed

lemma set_cascade: "set (cascade n removed rows) \<subseteq> set rows"
proof (induction n arbitrary: removed rows)
  case 0
  show ?case by simp
next
  case (Suc n)
  let ?orphaned = "\<lambda>r. comment_parent_id r \<noteq> None \<and> comment_parent_id r \<in> set removed"
  show ?case
  proof (cases "filter ?orphaned rows = []")
    case True
    then show ?thesis
      by (simp add: Let_def)
  next
    case False
    have "set (cascade n (map comment_id (filter ?orphaned rows)) (filter (\<lambda>r. \<not> ?orphaned r) rows))
        \<subseteq> set (filter (\<lambda>r. \<not> ?orphaned r) rows)"
      by (rule Suc.IH)
    with False show ?thesis
      by (auto simp: Let_def)
  qed
qed

lemma execute_comments_one_target:
  assumes inv: "\<forall>r \<in> set (comments db). one_target r"
    and ex: "execute_comments fresh now stmt db = Inr db'"
  shows "\<forall>r \<in> set (comments db'). one_target r"
proof (cases stmt)
  case (INSERT assign)
  let ?r = "assign (comment_defaults fresh now)"
  from ex INSERT have ok: "comments_error db [?r] (comments db @ [?r]) = None"
    and rows: "comments db' = comments db @ [?r]"
    by (auto simp: execute_comments_def Let_def split: option.splits)
  from comments_written_ok [OF ok] have "one_target ?r"
    by (simp add: comment_row_ok_one_target)
  with inv rows show ?thesis
    by auto
next
  case (UPDATE assign cond)
  let ?written = "map assign (filter cond (comments db))"
  let ?rows = "map (\<lambda>r. if cond r then assign r else r) (comments db)"
  from ex UPDATE have ok: "comments_error db ?written ?rows = None"
    and rows: "comments db' = ?rows"
    by (auto simp: execute_comments_def Let_def split: option.splits)
  have "one_target r" if "r \<in> set ?rows" for r
  proof -
    from that obtain old where o: "old \<in> set (comments db)"
      and r: "r = (if cond old then assign old else old)"
      by auto
    show ?thesis
    proof (cases "cond old")
      case True
      with o r have "r \<in> set ?written"
        by auto
      from comments_written_ok [OF ok this] show ?thesis
        by (simp add: comment_row_ok_one_target)
    next
      case False
      with o r inv show ?thesis
        by simp
    qed
  qed
  with rows show ?thesis
    by simp
next
  case (DELETE cond)
  with ex have "comments db' = cascade (length (comments db))
      (map comment_id (filter cond (comments db))) (filter (\<lambda>r. \<not> cond r) (comments db))"
    by (auto simp: execute_comments_def)
  then have "set (comments db') \<subseteq> set (filter (\<lambda>r. \<not> cond r) (comments db))"
    by (simp only: set_cascade)
  with inv show ?thesis
    by auto
qed

lemma run_comments_one_target:
  "\<forall>r \<in> set (comments db). one_target r \<Longrightarrow>
   \<forall>r \<in> set (comments (run_comments session db)). one_target r"
proof (induction session arbitrary: db)
  case Nil
  then show ?case by simp
next
  case (Cons step session)
  obtain fresh now stmt where step: "step = (fresh, now, stmt)"
    by (cases step)
  show ?case
  proof (cases "execute_comments fresh now stmt db")
    case (Inl e)
    with step Cons show ?thesis
      by simp
  next
    case (Inr db')
    from execute_comments_one_target [OF Cons.prems Inr] Cons.IH [of db'] Inr step
    show ?thesis
      by simp
  qed
qed

text \<open>
  C6. Every row of \<open>comments\<close> has exactly one of \<open>blog_id\<close> and \<open>course_id\<close> non-null,
  after any session of inserts, updates and deletes on a table of which this was true
  (the empty table the migration creates is one). An insert or an update that would
  store a comment referring to both a blog and a course, or to neither, is rejected and
  stores nothing.
\<close>

theorem comment_has_one_target:
  "((\<forall>r \<in> set (comments db). one_target r) \<longrightarrow>
      (\<forall>r \<in> set (comments (run_comments session db)).
         (comment_blog_id r \<noteq> None \<and> comment_course_id r = None)
         \<or> (comment_blog_id r = None \<and> comment_course_id r \<noteq> None)))
   \<and> (\<not> one_target (assign (comment_defaults fresh now)) \<longrightarrow>
        (\<exists>e. execute_comments fresh now (INSERT assign) db = Inl e)
        \<and> run_comments [(fresh, now, INSERT assign)] db = db)
   \<and> (old \<in> set (comments db) \<and> cond old \<and> \<not> one_target (assign old) \<longrightarrow>
        (\<exists>e. execute_comments fresh now (UPDATE assign cond) db = Inl e)
        \<and> run_comments [(fresh, now, UPDATE assign cond)] db = db)"
proof (intro conjI impI)
  assume "\<forall>r \<in> set (comments db). one_target r"
  then have "\<forall>r \<in> set (comments (run_comments session db)). one_target r"
    by (rule run_comments_one_target)
  then show "\<forall>r \<in> set (comments (run_comments session db)).
         (comment_blog_id r \<noteq> None \<and> comment_course_id r = None)
         \<or> (comment_blog_id r = None \<and> comment_course_id r \<noteq> None)"
    by (auto simp: one_target_def)
next
  let ?r = "assign (comment_defaults fresh now)"
  assume "\<not> one_target ?r"
  then have "comment_row_error ?r \<noteq> None"
    by (simp add: comment_row_ok_one_target)
  then have "comments_error db [?r] (comments db @ [?r]) \<noteq> None"
    by (intro comments_written_bad [of ?r]) simp_all
  then obtain e where e: "execute_comments fresh now (INSERT assign) db = Inl e"
    by (auto simp: execute_comments_def Let_def)
  then show "\<exists>e. execute_comments fresh now (INSERT assign) db = Inl e"
    by blast
  from e show "run_comments [(fresh, now, INSERT assign)] db = db"
    by simp
next
  let ?written = "map assign (filter cond (comments db))"
  let ?rows = "map (\<lambda>r. if cond r then assign r else r) (comments db)"
  assume a: "old \<in> set (comments db) \<and> cond old \<and> \<not> one_target (assign old)"
  then have "comment_row_error (assign old) \<noteq> None"
    by (simp add: comment_row_ok_one_target)
  moreover from a have "assign old \<in> set ?written"
    by auto
  ultimately have "comments_error db ?written ?rows \<noteq> None"
    by (intro comments_written_bad [of "assign old"])
  then obtain e where e: "execute_comments fresh now (UPDATE assign cond) db = Inl e"
    by (auto simp: execute_comments_def Let_def)
  then show "\<exists>e. execute_comments fresh now (UPDATE assign cond) db = Inl e"
    by blast
  from e show "run_comments [(fresh, now, UPDATE assign cond)] db = db"
    by simp
qed

lemma run_thread0: "comments (run_comments thread0 db0) = [on_blog, on_course]"
  by (simp add: thread0_def db0_def comment_on_def on_blog_def on_course_def
        execute_comments_def comments_error_def comment_row_error_def comment_defaults_def
        references_def check_passes_def sql_and_def sql_or_def is_null_def is_not_null_def
        blog1_def blog2_def course1_def course2_def Let_def)

theorem comment_has_one_target_witness:
  "comments db0 = []
   \<and> comments (run_comments thread0 db0) = [on_blog, on_course]
   \<and> comment_blog_id on_blog \<noteq> None \<and> comment_course_id on_blog = None
   \<and> comment_blog_id on_course = None \<and> comment_course_id on_course \<noteq> None
   \<and> run_comments [(''m2'', ''2025-07-08T12:01:00Z'',
          comment_on ''u2'' (Some ''b1'') (Some ''c1'') ''Both'')] db0 = db0
   \<and> run_comments [(''m3'', ''2025-07-08T12:02:00Z'', comment_on ''u2'' None None ''Neither'')] db0
       = db0
   \<and> run_comments [(''m5'', ''2025-07-08T12:04:00Z'',
          UPDATE (\<lambda>r. r\<lparr>comment_course_id := Some ''c1''\<rparr>) (\<lambda>r. comment_id r = Some ''m1''))]
        (db0\<lparr>comments := [on_blog, on_course]\<rparr>) = db0\<lparr>comments := [on_blog, on_course]\<rparr>"
proof -
  have empty: "comments db0 = []"
    by (simp add: db0_def)
  note inv = comment_has_one_target [where db = db0 and session = thread0, THEN conjunct1]
  with empty have "\<forall>r \<in> set (comments (run_comments thread0 db0)).
         (comment_blog_id r \<noteq> None \<and> comment_course_id r = None)
         \<or> (comment_blog_id r = None \<and> comment_course_id r \<noteq> None)"
    by simp
  then have targets: "comment_blog_id on_blog \<noteq> None \<and> comment_course_id on_blog = None"
    "comment_blog_id on_course = None \<and> comment_course_id on_course \<noteq> None"
    by (simp_all add: run_thread0 on_blog_def on_course_def)
  note both = comment_has_one_target [where db = db0 and fresh = "''m2''"
      and now = "''2025-07-08T12:01:00Z''"
      and assign = "\<lambda>r. r\<lparr>comment_user_id := Some ''u2'', comment_blog_id := Some ''b1'',
         comment_course_id := Some ''c1'', comment_content := Some ''Both''\<rparr>",
      THEN conjunct2, THEN conjunct1, folded comment_on_def]
  have b: "run_comments [(''m2'', ''2025-07-08T12:01:00Z'',
          comment_on ''u2'' (Some ''b1'') (Some ''c1'') ''Both'')] db0 = db0"
    using both by (simp add: one_target_def)
  note neither = comment_has_one_target [where db = db0 and fresh = "''m3''"
      and now = "''2025-07-08T12:02:00Z''"
      and assign = "\<lambda>r. r\<lparr>comment_user_id := Some ''u2'', comment_blog_id := None,
         comment_course_id := None, comment_content := Some ''Neither''\<rparr>",
      THEN conjunct2, THEN conjunct1, folded comment_on_def]
  have n: "run_comments [(''m3'', ''2025-07-08T12:02:00Z'',
          comment_on ''u2'' None None ''Neither'')] db0 = db0"
    using neither by (simp add: one_target_def)
  note upd = comment_has_one_target [where db = "db0\<lparr>comments := [on_blog, on_course]\<rparr>"
      and fresh = "''m5''" and now = "''2025-07-08T12:04:00Z''" and old = on_blog
      and assign = "\<lambda>r. r\<lparr>comment_course_id := Some ''c1''\<rparr>"
      and cond = "\<lambda>r. comment_id r = Some ''m1''", THEN conjunct2, THEN conjunct2]
  have u: "run_comments [(''m5'', ''2025-07-08T12:04:00Z'',
          UPDATE (\<lambda>r. r\<lparr>comment_course_id := Some ''c1''\<rparr>) (\<lambda>r. comment_id r = Some ''m1''))]
        (db0\<lparr>comments := [on_blog, on_course]\<rparr>) = db0\<lparr>comments := [on_blog, on_course]\<rparr>"
    using upd by (simp add: one_target_def on_blog_def)
  from empty targets b n u show ?thesis
    by (simp add: run_thread0)
qed

subsection \<open>Who assigns the timestamps\<close>

lemma patch_blog_updated_at:
  "part_blog_updated_at p = Some t \<Longrightarrow> blog_updated_at (patch_blog p r) = t"
  by (simp add: patch_blog_def)

lemma patch_course_updated_at:
  "part_course_updated_at p = Some t \<Longrightarrow> course_updated_at (patch_course p r) = t"
  by (simp add: patch_course_def)

lemma network_of_operation:
  "network (snd (addBlog sb blog w)) = network w @ [Insert_blogs blog]"
  "network (snd (addCourse sb course w)) = network w @ [Insert_courses course]"
  "network (snd (updateBlog sb now ident updatedBlog w))
     = network w @ [Update_blogs (updatedBlog\<lparr>part_blog_updated_at := Some now\<rparr>) ident]"
  "network (snd (updateCourse sb now ident updatedCourse w))
     = network w @ [Update_courses (updatedCourse\<lparr>part_course_updated_at := Some now\<rparr>) ident]"
  by (simp_all add: addBlog_def addCourse_def updateBlog_def updateCourse_def send_def
        console_error_def Let_def split: sum.splits)

text \<open>
  C5, as stated, fails for updates: \<open>updateBlog\<close> puts the browser's clock reading into
  the payload as \<open>updated_at\<close>, and the database stores that value. Here the browser's
  clock is years behind the server's.
\<close>

theorem update_stores_browser_clock:
  "network (snd (updateBlog (hosted ''b9'' server_clock db0) browser_clock ''b1'' blog_patch world0))
     = [Update_blogs (blog_patch\<lparr>part_blog_updated_at := Some browser_clock\<rparr>) ''b1'']
   \<and> update_blogs (blog_patch\<lparr>part_blog_updated_at := Some browser_clock\<rparr>) ''b1'' db0
       = Inr ([patched_blog1], db0\<lparr>blogs_table := [patched_blog1, blog2]\<rparr>)
   \<and> blogs (snd (updateBlog (hosted ''b9'' server_clock db0) browser_clock ''b1'' blog_patch world0))
       = [patched_blog1, blog2]
   \<and> blog_updated_at patched_blog1 = browser_clock
   \<and> browser_clock \<noteq> server_clock"
proof -
  have u: "update_blogs (blog_patch\<lparr>part_blog_updated_at := Some browser_clock\<rparr>) ''b1'' db0
       = Inr ([patched_blog1], db0\<lparr>blogs_table := [patched_blog1, blog2]\<rparr>)"
    by (simp add: update_blogs_def patch_blog_def blog_patch_def db0_def patched_blog1_def
          blog1_def blog2_def Let_def)
  have ids: "blog_id blog1 = ''b1''" "blog_id blog2 = ''b2''"
    by (simp_all add: blog1_def blog2_def)
  have "blogs (snd (updateBlog (hosted ''b9'' server_clock db0) browser_clock ''b1'' blog_patch world0))
       = [patched_blog1, blog2]"
    by (simp add: updateBlog_def hosted_def u single_def send_def world0_def ids Let_def)
  moreover have "blog_updated_at patched_blog1 = browser_clock"
    by (simp add: patched_blog1_def)
  moreover have "browser_clock \<noteq> server_clock"
    by (simp add: browser_clock_def server_clock_def)
  ultimately show ?thesis
    using u by (simp add: network_of_operation world0_def)
qed

text \<open>
  C5, amended. For every create of a blog or a course the request carries no
  \<open>created_at\<close> and no \<open>updated_at\<close> (the payload type has no such keys), and the row
  stored has both set to the server's \<open>now()\<close>. For every update the request carries
  \<open>updated_at\<close>, set by the client to the reading of its own clock, and every row the
  update stores has that value as \<open>updated_at\<close>; the server assigns no timestamp on an
  update. An update whose partial record has no \<open>created_at\<close>, as that of the blogs page,
  leaves \<open>created_at\<close> as it was.
\<close>

theorem timestamps_assigned:
  "network (snd (addBlog sb blog w)) = network w @ [Insert_blogs blog]
   \<and> network (snd (addCourse sb course w)) = network w @ [Insert_courses course]
   \<and> (insert_blogs fresh server_now blog db = Inr (stored, db') \<longrightarrow>
        (\<forall>r \<in> set stored. blog_created_at r = server_now \<and> blog_updated_at r = server_now)
        \<and> blogs_table db' = blogs_table db @ stored \<and> length stored = 1)
   \<and> (insert_courses fresh server_now course db = Inr (stored', db'') \<longrightarrow>
        (\<forall>r \<in> set stored'. course_created_at r = server_now \<and> course_updated_at r = server_now)
        \<and> courses_table db'' = courses_table db @ stored' \<and> length stored' = 1)
   \<and> network (snd (updateBlog sb client_now ident updatedBlog w))
       = network w @ [Update_blogs (updatedBlog\<lparr>part_blog_updated_at := Some client_now\<rparr>) ident]
   \<and> network (snd (updateCourse sb client_now ident updatedCourse w))
       = network w @ [Update_courses (updatedCourse\<lparr>part_course_updated_at := Some client_now\<rparr>) ident]
   \<and> (update_blogs (updatedBlog\<lparr>part_blog_updated_at := Some client_now\<rparr>) ident db
         = Inr (stored, db') \<longrightarrow>
        (\<forall>r \<in> set stored. blog_updated_at r = client_now)
        \<and> set stored \<subseteq> set (blogs_table db')
        \<and> set (blogs_table db') \<subseteq> set stored \<union> set (blogs_table db))
   \<and> (update_courses (updatedCourse\<lparr>part_course_updated_at := Some client_now\<rparr>) ident db
         = Inr (stored', db'') \<longrightarrow>
        (\<forall>r \<in> set stored'. course_updated_at r = client_now)
        \<and> set stored' \<subseteq> set (courses_table db'')
        \<and> set (courses_table db'') \<subseteq> set stored' \<union> set (courses_table db))
   \<and> part_blog_created_at (as_Partial (blogData form)) = None
   \<and> (part_blog_created_at updatedBlog = None \<longrightarrow>
        blog_created_at (patch_blog (updatedBlog\<lparr>part_blog_updated_at := Some client_now\<rparr>) old)
          = blog_created_at old)
   \<and> (part_course_created_at updatedCourse = None \<longrightarrow>
        course_created_at
          (patch_course (updatedCourse\<lparr>part_course_updated_at := Some client_now\<rparr>) old')
          = course_created_at old')"
proof (intro conjI impI)
  assume "insert_blogs fresh server_now blog db = Inr (stored, db')"
  then have s: "stored = [stored_blog fresh server_now blog]" 
    and d: "blogs_table db' = blogs_table db @ [stored_blog fresh server_now blog]"
    by (auto simp: insert_blogs_def Let_def split: if_splits)
  from s show "\<forall>r \<in> set stored. blog_created_at r = server_now \<and> blog_updated_at r = server_now"
    by (simp add: stored_blog_def)
  from s d show "blogs_table db' = blogs_table db @ stored"
    by simp
  from s show "length stored = 1"
    by simp
next
  assume "insert_courses fresh server_now course db = Inr (stored', db'')"
  then have s: "stored' = [stored_course fresh server_now course]" 
    and d: "courses_table db'' = courses_table db @ [stored_course fresh server_now course]"
    by (auto simp: insert_courses_def Let_def split: if_splits)
  from s show "\<forall>r \<in> set stored'. course_created_at r = server_now \<and> course_updated_at r = server_now"
    by (simp add: stored_course_def)
  from s d show "courses_table db'' = courses_table db @ stored'"
    by simp
  from s show "length stored' = 1"
    by simp
next
  let ?p = "updatedBlog\<lparr>part_blog_updated_at := Some client_now\<rparr>"
  assume "update_blogs ?p ident db = Inr (stored, db')"
  then have s: "stored = map (patch_blog ?p) (filter (\<lambda>r. blog_id r = ident) (blogs_table db))"
    and d: "blogs_table db'
        = map (\<lambda>r. if blog_id r = ident then patch_blog ?p r else r) (blogs_table db)"
    by (auto simp: update_blogs_def Let_def split: if_splits)
  from s show "\<forall>r \<in> set stored. blog_updated_at r = client_now"
    by (auto simp: patch_blog_updated_at)
  from s d show "set stored \<subseteq> set (blogs_table db')"
    by auto
  from s d show "set (blogs_table db') \<subseteq> set stored \<union> set (blogs_table db)"
    by auto
next
  let ?p = "updatedCourse\<lparr>part_course_updated_at := Some client_now\<rparr>"
  assume "update_courses ?p ident db = Inr (stored', db'')"
  then have s: "stored' = map (patch_course ?p) (filter (\<lambda>r. course_id r = ident) (courses_table db))"
    and d: "courses_table db''
        = map (\<lambda>r. if course_id r = ident then patch_course ?p r else r) (courses_table db)"
    by (auto simp: update_courses_def Let_def split: if_splits)
  from s show "\<forall>r \<in> set stored'. course_updated_at r = client_now"
    by (auto simp: patch_course_updated_at)
  from s d show "set stored' \<subseteq> set (courses_table db'')"
    by auto
  from s d show "set (courses_table db'') \<subseteq> set stored' \<union> set (courses_table db)"
    by auto
qed (simp_all add: network_of_operation as_Partial_def patch_blog_def patch_course_def)

theorem timestamps_assigned_witness:
  "insert_blogs ''b9'' server_clock new_blog db0
     = Inr ([stored_blog ''b9'' server_clock new_blog],
            db0\<lparr>blogs_table := [blog1, blog2, stored_blog ''b9'' server_clock new_blog]\<rparr>)
   \<and> blog_created_at (stored_blog ''b9'' server_clock new_blog) = server_clock
   \<and> blog_updated_at (stored_blog ''b9'' server_clock new_blog) = server_clock
   \<and> insert_courses ''c9'' server_clock new_course db0
     = Inr ([stored_course ''c9'' server_clock new_course],
            db0\<lparr>courses_table := [course1, course2, stored_course ''c9'' server_clock new_course]\<rparr>)
   \<and> course_created_at (stored_course ''c9'' server_clock new_course) = server_clock
   \<and> course_updated_at (stored_course ''c9'' server_clock new_course) = server_clock
   \<and> update_blogs (blog_patch\<lparr>part_blog_updated_at := Some browser_clock\<rparr>) ''b1'' db0
       = Inr ([patched_blog1], db0\<lparr>blogs_table := [patched_blog1, blog2]\<rparr>)
   \<and> blog_updated_at patched_blog1 = browser_clock
   \<and> update_courses (course_patch\<lparr>part_course_updated_at := Some browser_clock\<rparr>) ''c2'' db0
       = Inr ([course2\<lparr>course_duration := ''5 weeks'', course_updated_at := browser_clock\<rparr>],
              db0\<lparr>courses_table :=
                [course1, course2\<lparr>course_duration := ''5 weeks'', course_updated_at := browser_clock\<rparr>]\<rparr>)
   \<and> course_updated_at (course2\<lparr>course_duration := ''5 weeks'', course_updated_at := browser_clock\<rparr>)
       = browser_clock
   \<and> network (snd (addBlog accepting new_blog world0)) = [Insert_blogs new_blog]
   \<and> network (snd (updateCourse accepting browser_clock ''c2'' course_patch world0))
       = [Update_courses (course_patch\<lparr>part_course_updated_at := Some browser_clock\<rparr>) ''c2'']"
proof -
  have ib: "insert_blogs ''b9'' server_clock new_blog db0
     = Inr ([stored_blog ''b9'' server_clock new_blog],
            db0\<lparr>blogs_table := [blog1, blog2, stored_blog ''b9'' server_clock new_blog]\<rparr>)"
    by (simp add: insert_blogs_def db0_def blog1_def blog2_def Let_def)
  have ic: "insert_courses ''c9'' server_clock new_course db0
     = Inr ([stored_course ''c9'' server_clock new_course],
            db0\<lparr>courses_table := [course1, course2, stored_course ''c9'' server_clock new_course]\<rparr>)"
    by (simp add: insert_courses_def db0_def course1_def course2_def Let_def)
  have ub: "update_blogs (blog_patch\<lparr>part_blog_updated_at := Some browser_clock\<rparr>) ''b1'' db0
       = Inr ([patched_blog1], db0\<lparr>blogs_table := [patched_blog1, blog2]\<rparr>)"
    by (simp add: update_blogs_def patch_blog_def blog_patch_def db0_def patched_blog1_def
          blog1_def blog2_def Let_def)
  have uc: "update_courses (course_patch\<lparr>part_course_updated_at := Some browser_clock\<rparr>) ''c2'' db0
       = Inr ([course2\<lparr>course_duration := ''5 weeks'', course_updated_at := browser_clock\<rparr>],
              db0\<lparr>courses_table :=
                [course1, course2\<lparr>course_duration := ''5 weeks'', course_updated_at := browser_clock\<rparr>]\<rparr>)"
    by (simp add: update_courses_def patch_course_def course_patch_def db0_def
          course1_def course2_def Let_def)
  note t = timestamps_assigned [where sb = accepting and w = world0 and blog = new_blog
      and course = new_course and fresh = "''b9''" and server_now = server_clock and db = db0
      and stored = "[stored_blog ''b9'' server_clock new_blog]"
      and db' = "db0\<lparr>blogs_table := [blog1, blog2, stored_blog ''b9'' server_clock new_blog]\<rparr>"]
  from t ib have a: "blog_created_at (stored_blog ''b9'' server_clock new_blog) = server_clock"
    "blog_updated_at (stored_blog ''b9'' server_clock new_blog) = server_clock"
    "network (snd (addBlog accepting new_blog world0)) = network world0 @ [Insert_blogs new_blog]"
    by simp_all
  note t2 = timestamps_assigned [where sb = accepting and w = world0 and course = new_course
      and fresh = "''c9''" and server_now = server_clock and db = db0
      and stored' = "[stored_course ''c9'' server_clock new_course]"
      and db'' = "db0\<lparr>courses_table := [course1, course2, stored_course ''c9'' server_clock new_course]\<rparr>"]
  from t2 ic have b: "course_created_at (stored_course ''c9'' server_clock new_course) = server_clock"
    "course_updated_at (stored_course ''c9'' server_clock new_course) = server_clock"
    by simp_all
  note t3 = timestamps_assigned [where sb = accepting and w = world0 and db = db0
      and client_now = browser_clock and ident = "''b1''" and updatedBlog = blog_patch
      and stored = "[patched_blog1]" and db' = "db0\<lparr>blogs_table := [patched_blog1, blog2]\<rparr>"]
  from t3 ub have c: "blog_updated_at patched_blog1 = browser_clock"
    by simp
  note t4 = timestamps_assigned [where sb = accepting and w = world0 and db = db0
      and client_now = browser_clock and ident = "''c2''" and updatedCourse = course_patch
      and stored' = "[course2\<lparr>course_duration := ''5 weeks'', course_updated_at := browser_clock\<rparr>]"
      and db'' = "db0\<lparr>courses_table :=
                [course1, course2\<lparr>course_duration := ''5 weeks'', course_updated_at := browser_clock\<rparr>]\<rparr>"]
  from t4 uc have d: "course_updated_at
        (course2\<lparr>course_duration := ''5 weeks'', course_updated_at := browser_clock\<rparr>) = browser_clock"
    "network (snd (updateCourse accepting browser_clock ''c2'' course_patch world0))
       = network world0 @
         [Update_courses (course_patch\<lparr>part_course_updated_at := Some browser_clock\<rparr>) ''c2'']"
    by simp_all
  have n: "network world0 = []"
    by (simp add: world0_def)
  from ib ic ub uc a b c d n show ?thesis
    by simp
qed

end
